theory Spec2Isabelle
  imports Complex_Main
begin

section \<open>Python values and string operations used by the two cleanup functions\<close>

text \<open>
  Both functions are Python scripts that sequence calls to the storage SDK, the ODBC
  driver and the logging module. An exception is a value; its class is kept as far as
  the \<^verbatim>\<open>except\<close> clauses of the two files can tell classes apart.
\<close>

datatype exn_class =
  ValueError | TypeError | IndexError | UnboundLocalError
  | PyodbcError | ResourceNotFoundError | OtherException

datatype exn = Exn (exn_class: exn_class) (exn_msg: string)

text \<open>
  \<^verbatim>\<open>str.isspace\<close> on the ASCII range: tab, line feed, vertical tab, form feed, carriage
  return, the four separators 0x1C..0x1F and the space. \<^verbatim>\<open>str.strip()\<close> removes such
  characters from both ends.
\<close>

definition is_space :: "char \<Rightarrow> bool" where
  "is_space c = (of_char c \<in> {9, 10, 11, 12, 13, 28, 29, 30, 31, 32 :: nat})"

definition py_strip :: "string \<Rightarrow> string" where
  "py_strip s = rev (dropWhile is_space (rev (dropWhile is_space s)))"

text \<open>
  \<^verbatim>\<open>s.split(sep)\<close> for a non-empty separator: the pieces between the non-overlapping
  occurrences of \<open>sep\<close>, scanned from the left. \<open>cur\<close> is the piece being collected.
\<close>

fun split_from :: "string \<Rightarrow> string \<Rightarrow> string \<Rightarrow> string list" where
  "split_from sep cur [] = [cur]"
| "split_from sep cur (c # cs) =
     (if sep \<noteq> [] \<and> take (length sep) (c # cs) = sep
      then cur # split_from sep [] (drop (length sep - 1) cs)
      else split_from sep (cur @ [c]) cs)"

definition py_split :: "string \<Rightarrow> string \<Rightarrow> string list" where
  "py_split s sep = split_from sep [] s"

text \<open>\<^verbatim>\<open>s.replace(old, new)\<close> for a non-empty \<open>old\<close>: every non-overlapping occurrence, from the left.\<close>

fun replace_from :: "string \<Rightarrow> string \<Rightarrow> string \<Rightarrow> string" where
  "replace_from old new [] = []"
| "replace_from old new (c # cs) =
     (if old \<noteq> [] \<and> take (length old) (c # cs) = old
      then new @ replace_from old new (drop (length old - 1) cs)
      else c # replace_from old new cs)"

definition py_replace :: "string \<Rightarrow> string \<Rightarrow> string \<Rightarrow> string" where
  "py_replace s old new = replace_from old new s"

text \<open>\<^verbatim>\<open>xs[i]\<close> for a non-negative index: IndexError out of range.\<close>

definition py_index :: "'a list \<Rightarrow> nat \<Rightarrow> exn + 'a" where
  "py_index xs i =
     (if i < length xs then Inr (xs ! i) else Inl (Exn IndexError ''list index out of range''))"

text \<open>
  \<^verbatim>\<open>int(s)\<close> in base 10: surrounding whitespace is stripped, one sign is allowed, and
  the digits may be grouped by single underscores. Anything else raises ValueError.
  Only the ASCII digits are modelled (a \<open>char\<close> is a byte).
\<close>

definition is_digit :: "char \<Rightarrow> bool" where
  "is_digit c = (48 \<le> (of_char c :: nat) \<and> (of_char c :: nat) \<le> 57)"

fun valid_digits :: "string \<Rightarrow> bool" where
  "valid_digits [] = False"
| "valid_digits [c] = is_digit c"
| "valid_digits (c # d # cs) =
     (is_digit c \<and> (if d = CHR ''_'' then valid_digits cs else valid_digits (d # cs)))"

definition digits_value :: "string \<Rightarrow> nat" where
  "digits_value ds = foldl (\<lambda>acc c. acc * 10 + (of_char c - 48)) 0 ds"

definition invalid_literal :: "string \<Rightarrow> exn" where
  "invalid_literal s =
     Exn ValueError (''invalid literal for int() with base 10: '' @ [CHR 0x27] @ s @ [CHR 0x27])"

definition py_int :: "string \<Rightarrow> exn + int" where
  "py_int s =
     (let t = py_strip s;
          neg = (t \<noteq> [] \<and> hd t = CHR ''-'');
          body = (if t \<noteq> [] \<and> (hd t = CHR ''-'' \<or> hd t = CHR ''+'') then tl t else t)
      in if valid_digits body
         then Inr ((if neg then -1 else 1) * int (digits_value (filter (\<lambda>c. c \<noteq> CHR ''_'') body)))
         else Inl (invalid_literal s))"

text \<open>
  A log message is kept as the f-string that builds it: literal text and interpolated
  values, in order. Rendering a value as text is left to Python.
\<close>

datatype sqlval = SqlInt int | SqlStr string

datatype pyval =
  PyStr string | PyInt int | PyNone | PyDatetime int | PyList "string list"
  | PySql sqlval | ExnStr exn | ExnType exn | ExnArgs exn

datatype piece = Lit string | Fmt pyval

datatype level = INFO | WARNING | ERROR

text \<open>
  Everything a run does to the outside: the log lines it writes and the calls it makes
  to its collaborators (storage account, identity provider, ODBC driver and connection),
  in program order.
\<close>

datatype call =
  GetAccountInformation
  | ListContainers
  | ListBlobs string
  | DeleteBlob string string
  | GetToken string
  | Connect string "string option"
  | Execute string "int list"
  | Commit
  | Rollback

datatype event = Log level "piece list" | Call call

record run =
  trace :: "event list"

definition logging :: "level \<Rightarrow> piece list \<Rightarrow> 'a run_scheme \<Rightarrow> 'a run_scheme" where
  "logging lv m st = st\<lparr>trace := trace st @ [Log lv m]\<rparr>"

definition call :: "call \<Rightarrow> 'a run_scheme \<Rightarrow> 'a run_scheme" where
  "call c st = st\<lparr>trace := trace st @ [Call c]\<rparr>"

definition calls_of :: "event list \<Rightarrow> call list" where
  "calls_of tr = concat (map (\<lambda>ev. case ev of Call c \<Rightarrow> [c] | Log lv m \<Rightarrow> []) tr)"

definition logs_of :: "event list \<Rightarrow> (level \<times> piece list) list" where
  "logs_of tr = concat (map (\<lambda>ev. case ev of Call c \<Rightarrow> [] | Log lv m \<Rightarrow> [(lv, m)]) tr)"

section \<open>The blob cleanup function\<close>

text \<open>
  What the storage SDK hands to the function. A listed blob carries its name, its access
  tier (\<^verbatim>\<open>blob_tier\<close>, absent for blobs without one) and its
  \<^verbatim>\<open>last_modified\<close>, an aware UTC datetime, kept as microseconds since the epoch.
  The two things the outside decides while the blob is processed travel with it:
  \<open>now_utc\<close> is what \<^verbatim>\<open>datetime.now(timezone.utc)\<close> returns on line 75 for this blob,
  and \<open>delete_blob\<close> is what \<^verbatim>\<open>container_client.delete_blob\<close> does if it is called for it
  (\<open>None\<close>: it returns; \<open>Some e\<close>: it raises \<open>e\<close>).
\<close>

record blob =
  blob_name :: string
  blob_tier :: "string option"
  last_modified :: int
  now_utc :: int
  delete_blob :: "exn option"

record container =
  container_name :: string
  list_blobs :: "exn + blob list"

text \<open>
  What every invocation sees: the process environment (\<^verbatim>\<open>os.environ\<close>) and the timer
  request. The storage account adds the answers of the account probe and of the
  container listing.
\<close>

record invocation =
  environ :: "string \<rightharpoonup> string"
  past_due :: bool

record storage = invocation +
  get_account_information :: "exn + string"
  list_containers :: "exn + container list"

record blob_run = run +
  deleted_count :: int
  processed_count :: int
  error_count :: int

text \<open>
  \<^verbatim>\<open>(a - b).days\<close> of two aware datetimes: a timedelta is normalised with
  \<open>0 \<le> seconds < 86400\<close> and \<open>0 \<le> microseconds < 1000000\<close>, so \<open>days\<close> is the
  difference divided by one day, rounded down (also when the difference is negative).
\<close>

definition microseconds_per_day :: int where
  "microseconds_per_day = 86400000000"

definition timedelta_days :: "int \<Rightarrow> int \<Rightarrow> int" where
  "timedelta_days a b = (a - b) div microseconds_per_day"

text \<open>Lines 67 to 91: one iteration of the loop over the blobs of a container.\<close>

definition process_blob :: "int \<Rightarrow> string \<Rightarrow> blob \<Rightarrow> blob_run \<Rightarrow> blob_run" where
  "process_blob retention_days cname b st =
     (let st1 = st\<lparr>processed_count := processed_count st + 1\<rparr>;
          st2 = logging INFO [Lit ''Processing blob: '', Fmt (PyStr (blob_name b))] st1;
          st3 = logging INFO [Lit ''Blob tier: '',
                  Fmt (case blob_tier b of None \<Rightarrow> PyNone | Some t \<Rightarrow> PyStr t)] st2;
          st4 = logging INFO [Lit ''Last modified: '', Fmt (PyDatetime (last_modified b))] st3;
          age_days = timedelta_days (now_utc b) (last_modified b);
          st5 = logging INFO [Lit ''Blob age: '', Fmt (PyInt age_days), Lit '' days''] st4
      in if blob_tier b = Some ''Archive'' \<and> age_days > retention_days
         then (let st6 = call (DeleteBlob cname (blob_name b)) st5
               in case delete_blob b of
                    None \<Rightarrow>
                      logging INFO [Lit ''Successfully deleted blob: '', Fmt (PyStr cname), Lit ''/'',
                                    Fmt (PyStr (blob_name b))]
                        (st6\<lparr>deleted_count := deleted_count st6 + 1\<rparr>)
                  | Some e \<Rightarrow>
                      if exn_class e = ResourceNotFoundError
                      then (logging WARNING [Lit ''Blob not found (already deleted?): '',
                                             Fmt (PyStr cname), Lit ''/'', Fmt (PyStr (blob_name b))] st6)
                             \<lparr>error_count := error_count st6 + 1\<rparr>
                      else (logging ERROR [Lit ''Error deleting blob '', Fmt (PyStr cname), Lit ''/'',
                                           Fmt (PyStr (blob_name b)), Lit '': '', Fmt (ExnStr e)] st6)
                             \<lparr>error_count := error_count st6 + 1\<rparr>)
         else logging INFO [Lit ''Skipping blob '', Fmt (PyStr (blob_name b)), Lit '' (tier: '',
                            Fmt (case blob_tier b of None \<Rightarrow> PyNone | Some t \<Rightarrow> PyStr t),
                            Lit '', age: '', Fmt (PyInt age_days), Lit '' days)''] st5)"

text \<open>Line 66: the loop over the blobs that were listed.\<close>

fun process_blobs :: "int \<Rightarrow> string \<Rightarrow> blob list \<Rightarrow> blob_run \<Rightarrow> blob_run" where
  "process_blobs retention_days cname [] st = st"
| "process_blobs retention_days cname (b # bs) st =
     process_blobs retention_days cname bs (process_blob retention_days cname b st)"

text \<open>
  Lines 58 to 96: one iteration of the loop over the containers. Listing the blobs is
  inside the \<^verbatim>\<open>try\<close>; its failure is handled on lines 93 to 96.
\<close>

definition process_container :: "int \<Rightarrow> container \<Rightarrow> blob_run \<Rightarrow> blob_run" where
  "process_container retention_days c st =
     (let st1 = logging INFO [Lit ''Processing container: '', Fmt (PyStr (container_name c))] st;
          st2 = call (ListBlobs (container_name c)) st1
      in case list_blobs c of
           Inl container_error \<Rightarrow>
             (logging ERROR [Lit ''Error processing container '', Fmt (PyStr (container_name c)),
                             Lit '': '', Fmt (ExnStr container_error)] st2)
               \<lparr>error_count := error_count st2 + 1\<rparr>
         | Inr blobs \<Rightarrow>
             process_blobs retention_days (container_name c) blobs
               (logging INFO [Lit ''Found '', Fmt (PyInt (int (length blobs))),
                              Lit '' blobs in container '', Fmt (PyStr (container_name c))] st2))"

fun process_containers :: "int \<Rightarrow> container list \<Rightarrow> blob_run \<Rightarrow> blob_run" where
  "process_containers retention_days [] st = st"
| "process_containers retention_days (c # cs) st =
     process_containers retention_days cs (process_container retention_days c st)"

text \<open>Lines 52 to 54 and 98 to 103: the counters are set to zero, the loop runs, the summary is logged.\<close>

definition init_counters :: "blob_run \<Rightarrow> blob_run" where
  "init_counters st = st\<lparr>deleted_count := 0, processed_count := 0, error_count := 0\<rparr>"

definition cleanup :: "int \<Rightarrow> container list \<Rightarrow> blob_run \<Rightarrow> blob_run" where
  "cleanup retention_days containers st =
     (let st1 = init_counters st;
          st2 = process_containers retention_days containers st1;
          st3 = logging INFO [Lit ''Cleanup Summary:''] st2;
          st4 = logging INFO [Lit ''- Processed containers: '', Fmt (PyInt (int (length containers)))] st3;
          st5 = logging INFO [Lit ''- Total blobs processed: '', Fmt (PyInt (processed_count st4))] st4;
          st6 = logging INFO [Lit ''- Blobs deleted: '', Fmt (PyInt (deleted_count st5))] st5
      in logging INFO [Lit ''- Errors encountered: '', Fmt (PyInt (error_count st6))] st6)"

text \<open>
  Lines 16 to 103, the body of the outer \<^verbatim>\<open>try\<close>. The result is the exception that leaves
  the body, if any, and the run so far. \<^verbatim>\<open>RETENTION_DAYS\<close> is parsed on line 18, before
  the account name is checked on line 21. The credential and the client objects are
  built without a call to the service; the first call is the account probe on line 37.
\<close>

definition blob_body :: "storage \<Rightarrow> blob_run \<Rightarrow> exn option \<times> blob_run" where
  "blob_body w st =
     (case py_int (case environ w ''RETENTION_DAYS'' of None \<Rightarrow> ''90'' | Some v \<Rightarrow> v) of
        Inl e \<Rightarrow> (Some e, st)
      | Inr retention_days \<Rightarrow>
          (case environ w ''STORAGE_ACCOUNT_NAME'' of
             None \<Rightarrow>
               (Some (Exn ValueError ''STORAGE_ACCOUNT_NAME environment variable is not set''), st)
           | Some account_name \<Rightarrow>
               if account_name = []
               then (Some (Exn ValueError ''STORAGE_ACCOUNT_NAME environment variable is not set''), st)
               else
                 (let st1 = logging INFO [Lit ''Configuration: Storage Account: '',
                              Fmt (PyStr account_name), Lit '', Retention Days: '',
                              Fmt (PyInt retention_days)] st;
                      st2 = logging INFO [Lit ''Acquiring managed identity token...''] st1;
                      account_url = ''https://'' @ account_name @ ''.blob.core.windows.net'';
                      st3 = logging INFO [Lit ''Connecting to storage account: '',
                              Fmt (PyStr account_url)] st2;
                      st4 = call GetAccountInformation st3
                  in case get_account_information w of
                       Inl account_error \<Rightarrow>
                         (Some account_error,
                          logging ERROR [Lit ''Failed to access storage account: '',
                                         Fmt (ExnStr account_error)] st4)
                     | Inr sku_name \<Rightarrow>
                         (let st5 = logging INFO
                                [Lit ''Successfully connected to storage account. SKU: '',
                                 Fmt (PyStr sku_name)] st4;
                              st6 = logging INFO [Lit ''Listing containers...''] st5;
                              st7 = call ListContainers st6
                          in case list_containers w of
                               Inl container_error \<Rightarrow>
                                 (Some container_error,
                                  logging ERROR [Lit ''Error listing containers: '',
                                                 Fmt (ExnStr container_error)] st7)
                             | Inr containers \<Rightarrow>
                                 (None,
                                  cleanup retention_days containers
                                    (logging INFO [Lit ''Found '',
                                       Fmt (PyInt (int (length containers))),
                                       Lit '' containers''] st7))))))"

text \<open>
  Lines 9 to 111: \<^verbatim>\<open>main\<close>. The two handlers of the outer \<^verbatim>\<open>try\<close> log and re-raise; a
  ValueError is reported as a configuration error. The counters are local variables of
  \<^verbatim>\<open>main\<close>; the run starts with an empty trace.
\<close>

definition blob_start :: blob_run where
  "blob_start = \<lparr>trace = [], deleted_count = 0, processed_count = 0, error_count = 0\<rparr>"

definition blob_main :: "storage \<Rightarrow> exn option \<times> blob_run" where
  "blob_main w =
     (let st0 = logging INFO [Lit ''Blob cleanup function triggered''] blob_start;
          st1 = (if past_due w then logging INFO [Lit ''The timer is past due!''] st0 else st0)
      in case blob_body w st1 of
           (None, st) \<Rightarrow> (None, st)
         | (Some e, st) \<Rightarrow>
             if exn_class e = ValueError
             then (Some e, logging ERROR [Lit ''Configuration error: '', Fmt (ExnStr e)] st)
             else (Some e,
                   logging ERROR [Lit ''Error type: '', Fmt (ExnType e)]
                     (logging ERROR [Lit ''Error in blob cleanup function: '', Fmt (ExnStr e)] st)))"

section \<open>The database cleanup function\<close>

text \<open>
  What the ODBC driver and the identity provider answer. \<open>get_token\<close> is
  \<^verbatim>\<open>credential.get_token(scope)\<close>; \<open>connect\<close> is \<^verbatim>\<open>pyodbc.connect\<close> for a connection string
  and the access token passed in \<^verbatim>\<open>attrs_before\<close>, if any (\<open>None\<close>: connected;
  \<open>Some e\<close>: it raises \<open>e\<close>). \<open>execute\<close> is \<^verbatim>\<open>cursor.execute\<close> for a statement and
  its parameters; a statement that succeeds leaves a cursor with what
  \<^verbatim>\<open>fetchone()\<close> returns and its \<^verbatim>\<open>rowcount\<close>. Each statement text is executed at most once
  in a run. \<open>commit\<close> and \<open>rollback\<close> may be called several times, so their answer may
  depend on the trace so far.
\<close>

record cursor =
  fetchone :: "exn + sqlval list option"
  rowcount :: int

record database = invocation +
  drivers :: "string list"
  get_token :: "string \<Rightarrow> exn + string"
  connect :: "string \<Rightarrow> string option \<Rightarrow> exn option"
  execute :: "string \<Rightarrow> int list \<Rightarrow> exn + cursor"
  commit :: "event list \<Rightarrow> exn option"
  rollback :: "event list \<Rightarrow> exn option"

text \<open>
  The run of the database function: the trace, the local variables \<^verbatim>\<open>total_deleted\<close> and
  \<^verbatim>\<open>table_name\<close> (unbound until line 97 assigns it), and the connection's transaction.
  The connection is opened with autocommit off (the driver's default): a statement
  that succeeds joins the open transaction (\<open>pending\<close>), a statement that raises changes
  nothing, a commit makes the open transaction durable (\<open>committed\<close>), a rollback
  discards it.
\<close>

record db_run = run +
  total_deleted :: int
  table_name :: "string option"
  pending :: "(string \<times> int list) list"
  committed :: "(string \<times> int list) list"

definition cursor_execute :: "database \<Rightarrow> string \<Rightarrow> int list \<Rightarrow> db_run \<Rightarrow> (exn + cursor) \<times> db_run" where
  "cursor_execute w sql params st =
     (let st1 = call (Execute sql params) st
      in case execute w sql params of
           Inl e \<Rightarrow> (Inl e, st1)
         | Inr cur \<Rightarrow> (Inr cur, st1\<lparr>pending := pending st1 @ [(sql, params)]\<rparr>))"

text \<open>\<^verbatim>\<open>cursor.fetchone()[0]\<close>: subscripting \<^verbatim>\<open>None\<close> (no row) is a TypeError.\<close>

definition fetchone_0 :: "cursor \<Rightarrow> exn + sqlval" where
  "fetchone_0 cur =
     (case fetchone cur of
        Inl e \<Rightarrow> Inl e
      | Inr None \<Rightarrow> Inl (Exn TypeError ([CHR 0x27] @ ''NoneType'' @ [CHR 0x27] @ '' object is not subscriptable''))
      | Inr (Some row) \<Rightarrow> py_index row 0)"

definition conn_commit :: "database \<Rightarrow> db_run \<Rightarrow> exn option \<times> db_run" where
  "conn_commit w st =
     (let st1 = call Commit st
      in case commit w (trace st) of
           Some e \<Rightarrow> (Some e, st1)
         | None \<Rightarrow> (None, st1\<lparr>committed := committed st1 @ pending st1, pending := []\<rparr>))"

definition conn_rollback :: "database \<Rightarrow> db_run \<Rightarrow> exn option \<times> db_run" where
  "conn_rollback w st =
     (let st1 = call Rollback st
      in case rollback w (trace st) of
           Some e \<Rightarrow> (Some e, st1)
         | None \<Rightarrow> (None, st1\<lparr>pending := []\<rparr>))"

text \<open>Lines 82 to 91: the two statements, as the triple-quoted literals spell them.\<close>

definition delete_from_Logs :: string where
  "delete_from_Logs =
     ''\<newline>                    DELETE FROM Logs \<newline>                    WHERE CreatedDate < DATEADD(day, ?, GETDATE())\<newline>                    ''"

definition delete_from_AuditTrail :: string where
  "delete_from_AuditTrail =
     ''\<newline>                    DELETE FROM AuditTrail \<newline>                    WHERE Timestamp < DATEADD(day, ?, GETDATE())\<newline>                    ''"

definition cleanup_queries :: "string list" where
  "cleanup_queries = [delete_from_Logs, delete_from_AuditTrail]"

text \<open>Line 97: \<^verbatim>\<open>query.split("FROM")[1].split("WHERE")[0].strip()\<close>.\<close>

definition table_name_of :: "string \<Rightarrow> exn + string" where
  "table_name_of query =
     (case py_index (py_split query ''FROM'') 1 of
        Inl e \<Rightarrow> Inl e
      | Inr after_from \<Rightarrow>
          (case py_index (py_split after_from ''WHERE'') 0 of
             Inl e \<Rightarrow> Inl e
           | Inr before_where \<Rightarrow> Inr (py_strip before_where)))"

text \<open>Line 98: the statement that looks the table up in the schema catalog.\<close>

definition catalog_query :: "string \<Rightarrow> string" where
  "catalog_query tname =
     ''SELECT COUNT(*) FROM INFORMATION_SCHEMA.TABLES WHERE TABLE_NAME = '' @ [CHR 0x27] @ tname @ [CHR 0x27]"

text \<open>Line 104: the statement that counts the rows the delete would remove.\<close>

definition count_query :: "string \<Rightarrow> string" where
  "count_query query = py_replace query ''DELETE FROM'' ''SELECT COUNT(*) FROM''"

text \<open>
  Lines 103 to 114, reached when the table exists: count, delete, commit. The argument
  \<^verbatim>\<open>-int(retention_days)\<close> is evaluated before each of the two \<^verbatim>\<open>execute\<close> calls.
\<close>

definition delete_rows :: "database \<Rightarrow> string \<Rightarrow> string \<Rightarrow> string \<Rightarrow> db_run \<Rightarrow> exn option \<times> db_run" where
  "delete_rows w retention_days query tname st =
     (case py_int retention_days of
        Inl e \<Rightarrow> (Some e, st)
      | Inr days \<Rightarrow>
          (case cursor_execute w (count_query query) [- days] st of
             (Inl e, st1) \<Rightarrow> (Some e, st1)
           | (Inr count_cursor, st1) \<Rightarrow>
               (case fetchone_0 count_cursor of
                  Inl e \<Rightarrow> (Some e, st1)
                | Inr to_delete_count \<Rightarrow>
                    (let st2 = logging INFO [Lit ''Found '', Fmt (PySql to_delete_count),
                                 Lit '' records to delete from '', Fmt (PyStr tname)] st1
                     in case cursor_execute w query [- days] st2 of
                          (Inl e, st3) \<Rightarrow> (Some e, st3)
                        | (Inr delete_cursor, st3) \<Rightarrow>
                            (let deleted_rows = rowcount delete_cursor;
                                 st4 = st3\<lparr>total_deleted := total_deleted st3 + deleted_rows\<rparr>;
                                 st5 = logging INFO [Lit ''Deleted '', Fmt (PyInt deleted_rows),
                                         Lit '' rows from '', Fmt (PyStr tname)] st4
                             in conn_commit w st5)))))"

text \<open>
  Lines 96 to 114, the body of the \<^verbatim>\<open>try\<close> of one iteration. The result is the exception
  that leaves the body, if any; \<^verbatim>\<open>continue\<close> and reaching the end both leave none.
\<close>

definition try_query :: "database \<Rightarrow> string \<Rightarrow> string \<Rightarrow> db_run \<Rightarrow> exn option \<times> db_run" where
  "try_query w retention_days query st =
     (case table_name_of query of
        Inl e \<Rightarrow> (Some e, st)
      | Inr tname \<Rightarrow>
          (case cursor_execute w (catalog_query tname) [] (st\<lparr>table_name := Some tname\<rparr>) of
             (Inl e, st1) \<Rightarrow> (Some e, st1)
           | (Inr catalog_cursor, st1) \<Rightarrow>
               (case fetchone_0 catalog_cursor of
                  Inl e \<Rightarrow> (Some e, st1)
                | Inr n \<Rightarrow>
                    if n = SqlInt 0
                    then (None, logging WARNING [Lit ''Table '', Fmt (PyStr tname),
                                                 Lit '' does not exist, skipping...''] st1)
                    else delete_rows w retention_days query tname st1)))"

text \<open>
  Lines 95 to 117: one iteration with its handler, which logs and rolls back. Nothing
  guards the handler: an exception of \<^verbatim>\<open>conn.rollback()\<close> leaves the loop, and so does the
  UnboundLocalError of the f-string when \<^verbatim>\<open>table_name\<close> was never assigned.
\<close>

definition process_query :: "database \<Rightarrow> string \<Rightarrow> string \<Rightarrow> db_run \<Rightarrow> exn option \<times> db_run" where
  "process_query w retention_days query st =
     (case try_query w retention_days query st of
        (None, st1) \<Rightarrow> (None, st1)
      | (Some query_error, st1) \<Rightarrow>
          (case table_name st1 of
             None \<Rightarrow> (Some (Exn UnboundLocalError ''table_name''), st1)
           | Some tname \<Rightarrow>
               conn_rollback w
                 (logging ERROR [Lit ''Error executing query on '', Fmt (PyStr tname), Lit '': '',
                                 Fmt (ExnStr query_error)] st1)))"

text \<open>Line 94: the loop over the statements; an exception that leaves an iteration ends it.\<close>

fun process_queries :: "database \<Rightarrow> string \<Rightarrow> string list \<Rightarrow> db_run \<Rightarrow> exn option \<times> db_run" where
  "process_queries w retention_days [] st = (None, st)"
| "process_queries w retention_days (query # queries) st =
     (case process_query w retention_days query st of
        (Some e, st1) \<Rightarrow> (Some e, st1)
      | (None, st1) \<Rightarrow> process_queries w retention_days queries st1)"

text \<open>Lines 72 to 119: the block inside \<^verbatim>\<open>with conn.cursor() as cursor\<close>.\<close>

definition cursor_block :: "database \<Rightarrow> string \<Rightarrow> db_run \<Rightarrow> exn option \<times> db_run" where
  "cursor_block w retention_days st =
     (case cursor_execute w ''SELECT @@VERSION'' [] st of
        (Inl test_error, st1) \<Rightarrow>
          (Some test_error, logging ERROR [Lit ''Error testing connection: '', Fmt (ExnStr test_error)] st1)
      | (Inr version_cursor, st1) \<Rightarrow>
          (case fetchone_0 version_cursor of
             Inl test_error \<Rightarrow>
               (Some test_error,
                logging ERROR [Lit ''Error testing connection: '', Fmt (ExnStr test_error)] st1)
           | Inr version \<Rightarrow>
               (let st2 = logging INFO [Lit ''Connected to SQL Server version: '', Fmt (PySql version)] st1
                in case process_queries w retention_days cleanup_queries (st2\<lparr>total_deleted := 0\<rparr>) of
                     (Some e, st3) \<Rightarrow> (Some e, st3)
                   | (None, st3) \<Rightarrow>
                       (None, logging INFO [Lit ''Database cleanup completed. Total rows deleted: '',
                                            Fmt (PyInt (total_deleted st3))] st3))))"

text \<open>
  Lines 71 to 119: the two \<^verbatim>\<open>with\<close> blocks. The driver's context managers end the
  transaction on exit: the cursor commits when its block ends without an exception; the
  connection commits then as well, and rolls back when an exception leaves its block.
\<close>

definition with_conn :: "database \<Rightarrow> string \<Rightarrow> db_run \<Rightarrow> exn option \<times> db_run" where
  "with_conn w retention_days st =
     (case cursor_block w retention_days st of
        (Some e, st1) \<Rightarrow>
          (case conn_rollback w st1 of
             (Some exit_error, st2) \<Rightarrow> (Some exit_error, st2)
           | (None, st2) \<Rightarrow> (Some e, st2))
      | (None, st1) \<Rightarrow>
          (case conn_commit w st1 of
             (Some e, st2) \<Rightarrow>
               (case conn_rollback w st2 of
                  (Some exit_error, st3) \<Rightarrow> (Some exit_error, st3)
                | (None, st3) \<Rightarrow> (Some e, st3))
           | (None, st2) \<Rightarrow> conn_commit w st2))"

text \<open>Lines 34 to 42 and 57 to 64: the two connection strings.\<close>

definition conn_str :: "string \<Rightarrow> string \<Rightarrow> string" where
  "conn_str server db =
     ''Driver={ODBC Driver 17 for SQL Server};'' @ ''Server=tcp:'' @ server @ '',1433;''
     @ ''Database='' @ db @ '';'' @ ''Authentication=ActiveDirectoryMSI;''
     @ ''Encrypt=yes;'' @ ''TrustServerCertificate=no;'' @ ''Connection Timeout=30;''"

definition conn_str_token :: "string \<Rightarrow> string \<Rightarrow> string" where
  "conn_str_token server db =
     ''Driver={ODBC Driver 17 for SQL Server};'' @ ''Server=tcp:'' @ server @ '',1433;''
     @ ''Database='' @ db @ '';''
     @ ''Encrypt=yes;'' @ ''TrustServerCertificate=no;'' @ ''Connection Timeout=30;''"

definition token_scope :: string where
  "token_scope = ''https://database.windows.net/.default''"

text \<open>
  Lines 28 to 69: the token is requested first, on line 30; then the connection is
  tried with the identity named in the connection string, and a \<^verbatim>\<open>pyodbc.Error\<close> of that
  attempt is answered by a second attempt that passes the token.
\<close>

definition open_connection :: "database \<Rightarrow> string \<Rightarrow> string \<Rightarrow> db_run \<Rightarrow> exn option \<times> db_run" where
  "open_connection w server db st =
     (let st1 = call (GetToken token_scope) st
      in case get_token w token_scope of
           Inl e \<Rightarrow> (Some e, st1)
         | Inr token \<Rightarrow>
             (let st2 = logging INFO [Lit ''Successfully acquired token''] st1;
                  st3 = logging INFO [Lit ''Attempting to connect to database...''] st2;
                  st4 = logging INFO
                          [Lit ''Connection string (masked): Driver={ODBC Driver 17 for SQL Server};Server=tcp:'',
                           Fmt (PyStr server), Lit '',1433;Database='', Fmt (PyStr db)] st3;
                  st5 = logging INFO [Lit ''Attempting connection with MSI authentication...''] st4;
                  st6 = call (Connect (conn_str server db) None) st5
              in case connect w (conn_str server db) None of
                   None \<Rightarrow>
                     (None, logging INFO
                              [Lit ''Successfully connected to database using MSI authentication''] st6)
                 | Some msi_error \<Rightarrow>
                     if exn_class msi_error \<noteq> PyodbcError then (Some msi_error, st6)
                     else
                       (let st7 = logging WARNING [Lit ''MSI authentication failed: '',
                                    Fmt (ExnStr msi_error)] st6;
                            st8 = logging INFO [Lit ''Attempting connection with access token...''] st7;
                            st9 = call (Connect (conn_str_token server db) (Some token)) st8
                        in case connect w (conn_str_token server db) (Some token) of
                             None \<Rightarrow>
                               (None, logging INFO
                                        [Lit ''Successfully connected to database using access token''] st9)
                           | Some token_error \<Rightarrow>
                               if exn_class token_error \<noteq> PyodbcError then (Some token_error, st9)
                               else (Some token_error,
                                     logging ERROR [Lit ''Token authentication failed: '',
                                                    Fmt (ExnStr token_error)] st9))))"

text \<open>
  Lines 12 to 119, the body of the outer \<^verbatim>\<open>try\<close>. Python takes \<^verbatim>\<open>None\<close> and the empty
  string for false (\<open>truthy\<close>); listing the installed drivers calls nothing outside
  the process.
\<close>

definition truthy :: "string option \<Rightarrow> bool" where
  "truthy v = (case v of None \<Rightarrow> False | Some s \<Rightarrow> s \<noteq> [])"

definition db_body :: "database \<Rightarrow> db_run \<Rightarrow> exn option \<times> db_run" where
  "db_body w st =
     (let server = environ w ''SQL_SERVER'';
          db = environ w ''SQL_DATABASE'';
          retention_days = (case environ w ''RETENTION_DAYS'' of None \<Rightarrow> ''90'' | Some v \<Rightarrow> v);
          st1 = logging INFO [Lit ''SQL_SERVER configured: '',
                  Fmt (PyStr (if truthy server then ''Yes'' else ''No''))] st;
          st2 = logging INFO [Lit ''SQL_DATABASE configured: '',
                  Fmt (PyStr (if truthy db then ''Yes'' else ''No''))] st1;
          st3 = logging INFO [Lit ''RETENTION_DAYS configured: '', Fmt (PyStr retention_days)] st2
      in if \<not> truthy server \<or> \<not> truthy db
         then (Some (Exn ValueError
                 ''Missing required environment variables: SQL_SERVER and/or SQL_DATABASE''), st3)
         else
           (let st4 = logging INFO [Lit ''Available ODBC drivers:''] st3;
                st5 = logging INFO [Fmt (PyList (drivers w))] st4
            in case open_connection w (case server of None \<Rightarrow> [] | Some s \<Rightarrow> s)
                      (case db of None \<Rightarrow> [] | Some s \<Rightarrow> s) st5 of
                 (Some e, st6) \<Rightarrow> (Some e, st6)
               | (None, st6) \<Rightarrow> with_conn w retention_days st6))"

text \<open>Lines 8 to 128: \<^verbatim>\<open>main\<close> with the two handlers of the outer \<^verbatim>\<open>try\<close>, which log and re-raise.\<close>

definition db_start :: db_run where
  "db_start = \<lparr>trace = [], total_deleted = 0, table_name = None, pending = [], committed = []\<rparr>"

definition db_main :: "database \<Rightarrow> exn option \<times> db_run" where
  "db_main w =
     (case db_body w (logging INFO [Lit ''Database cleanup function triggered''] db_start) of
        (None, st) \<Rightarrow> (None, st)
      | (Some e, st) \<Rightarrow>
          if exn_class e = ValueError
          then (Some e, logging ERROR [Lit ''Configuration error: '', Fmt (ExnStr e)] st)
          else (Some e,
                logging ERROR [Lit ''Error args: '', Fmt (ExnArgs e)]
                  (logging ERROR [Lit ''Error type: '', Fmt (ExnType e)]
                     (logging ERROR [Lit ''Error in database cleanup function: '', Fmt (ExnStr e)] st))))"

section \<open>Reading a trace\<close>

text \<open>
  What the blob function decided for each blob, in order: a call of
  \<^verbatim>\<open>delete_blob\<close> for the blob (\<open>True\<close>), or the line that reports it as skipped (\<open>False\<close>).
\<close>

definition decision_of :: "event \<Rightarrow> (string \<times> bool) list" where
  "decision_of ev =
     (case ev of
        Call c \<Rightarrow> (case c of DeleteBlob cname n \<Rightarrow> [(n, True)] | _ \<Rightarrow> [])
      | Log lv m \<Rightarrow>
          (case m of
             l # Fmt (PyStr n) # rest \<Rightarrow> if lv = INFO \<and> l = Lit ''Skipping blob '' then [(n, False)] else []
           | _ \<Rightarrow> []))"

definition decisions :: "event list \<Rightarrow> (string \<times> bool) list" where
  "decisions tr = concat (map decision_of tr)"

text \<open>The containers whose blobs the run asked the storage account to list, in order.\<close>

definition listed :: "event list \<Rightarrow> string list" where
  "listed tr = concat (map (\<lambda>ev. case ev of Call (ListBlobs n) \<Rightarrow> [n] | _ \<Rightarrow> []) tr)"

text \<open>The calls of a database run that authenticate: the token request and the connection attempts.\<close>

definition is_auth_call :: "call \<Rightarrow> bool" where
  "is_auth_call c = (case c of GetToken scope \<Rightarrow> True | Connect cs tok \<Rightarrow> True | _ \<Rightarrow> False)"

definition auth_calls :: "event list \<Rightarrow> call list" where
  "auth_calls tr = filter is_auth_call (calls_of tr)"

text \<open>The texts of the statements a run executed, in order.\<close>

definition statements :: "event list \<Rightarrow> string list" where
  "statements tr = concat (map (\<lambda>ev. case ev of Call (Execute sql ps) \<Rightarrow> [sql] | _ \<Rightarrow> []) tr)"

text \<open>The statements of the open transaction together with the committed ones.\<close>

definition journal :: "db_run \<Rightarrow> (string \<times> int list) set" where
  "journal st = set (pending st) \<union> set (committed st)"

text \<open>
  The moves the loop of the blob function is made of (lines 57 to 96): a log line, a
  call to the SDK, the processing of one blob, and the count of a container whose
  listing failed.
\<close>

inductive loop_step :: "int \<Rightarrow> blob_run \<Rightarrow> blob_run \<Rightarrow> bool" for retention_days where
  log_line: "loop_step retention_days st (logging lv m st)"
| sdk_call: "loop_step retention_days st (call c st)"
| blob_processed: "loop_step retention_days st (process_blob retention_days cname b st)"
| container_failed: "loop_step retention_days st (st\<lparr>error_count := error_count st + 1\<rparr>)"

section \<open>The terms the claims are stated in\<close>

text \<open>
  The predicate of the specification: the tier is Archive and the age in whole days,
  the floor of the quotient of \<open>now_utc - last_modified\<close> by one day, exceeds the
  retention.
\<close>

definition should_delete :: "int \<Rightarrow> blob \<Rightarrow> bool" where
  "should_delete retention_days b =
     (blob_tier b = Some ''Archive''
      \<and> \<lfloor>real_of_int (now_utc b - last_modified b) / real_of_int microseconds_per_day\<rfloor> > retention_days)"

text \<open>The blobs of the containers whose listing succeeded, in the order of enumeration.\<close>

definition enumerated :: "container list \<Rightarrow> blob list" where
  "enumerated cs = concat (map (\<lambda>c. case list_blobs c of Inl e \<Rightarrow> [] | Inr bs \<Rightarrow> bs) cs)"

text \<open>
  The authentication of the database function as a protocol: which calls it makes, and
  which exception ends it, for what the identity provider and the driver answer.
\<close>

definition expected_auth_calls :: "database \<Rightarrow> string \<Rightarrow> string \<Rightarrow> call list" where
  "expected_auth_calls w server db =
     (case get_token w token_scope of
        Inl e \<Rightarrow> [GetToken token_scope]
      | Inr token \<Rightarrow>
          (case connect w (conn_str server db) None of
             None \<Rightarrow> [GetToken token_scope, Connect (conn_str server db) None]
           | Some msi_error \<Rightarrow>
               if exn_class msi_error = PyodbcError
               then [GetToken token_scope, Connect (conn_str server db) None,
                     Connect (conn_str_token server db) (Some token)]
               else [GetToken token_scope, Connect (conn_str server db) None]))"

definition auth_failure :: "database \<Rightarrow> string \<Rightarrow> string \<Rightarrow> exn option" where
  "auth_failure w server db =
     (case get_token w token_scope of
        Inl e \<Rightarrow> Some e
      | Inr token \<Rightarrow>
          (case connect w (conn_str server db) None of
             None \<Rightarrow> None
           | Some msi_error \<Rightarrow>
               if exn_class msi_error = PyodbcError
               then connect w (conn_str_token server db) (Some token)
               else Some msi_error))"

text \<open>The statements that the database executes without raising.\<close>

definition succeeded :: "database \<Rightarrow> (string \<times> int list) set" where
  "succeeded w = {(sql, params). \<exists>cur. execute w sql params = Inr cur}"

text \<open>
  The statements an iteration of the database loop can execute for a statement of the
  list: the catalog lookup, and the count and the delete only when the lookup finds
  the table.
\<close>

definition may_execute :: "database \<Rightarrow> string \<Rightarrow> string set" where
  "may_execute w query =
     (case table_name_of query of
        Inl e \<Rightarrow> {}
      | Inr tname \<Rightarrow>
          (case execute w (catalog_query tname) [] of
             Inl e \<Rightarrow> {catalog_query tname}
           | Inr catalog_cursor \<Rightarrow>
               (case fetchone_0 catalog_cursor of
                  Inl e \<Rightarrow> {catalog_query tname}
                | Inr n \<Rightarrow>
                    if n = SqlInt 0 then {catalog_query tname}
                    else {catalog_query tname, count_query query, query})))"

section \<open>Concrete runs\<close>

text \<open>
  The scenario of the specification: retention 90, container \<^verbatim>\<open>archive1\<close> with the Archive blob
  \<^verbatim>\<open>x.txt\<close> modified 100 days ago and the Hot blob \<^verbatim>\<open>y.txt\<close> modified 200 days ago.
\<close>

definition x_txt :: blob where
  "x_txt = \<lparr>blob_name = ''x.txt'', blob_tier = Some ''Archive'', last_modified = 0,
     now_utc = 8640000000000, delete_blob = None\<rparr>"

definition y_txt :: blob where
  "y_txt = \<lparr>blob_name = ''y.txt'', blob_tier = Some ''Hot'', last_modified = 0,
     now_utc = 17280000000000, delete_blob = None\<rparr>"

definition archive1 :: container where
  "archive1 = \<lparr>container_name = ''archive1'', list_blobs = Inr [x_txt, y_txt]\<rparr>"

definition scenario_storage :: storage where
  "scenario_storage =
     \<lparr>environ = [''STORAGE_ACCOUNT_NAME'' \<mapsto> ''acct'', ''RETENTION_DAYS'' \<mapsto> ''90''], past_due = False,
      get_account_information = Inr ''Standard_LRS'', list_containers = Inr [archive1]\<rparr>"

text \<open>An Archive blob that is one hour old, and one that is exactly one day old.\<close>

definition hour_old_blob :: blob where
  "hour_old_blob = \<lparr>blob_name = ''recent.txt'', blob_tier = Some ''Archive'', last_modified = 0,
     now_utc = 3600000000, delete_blob = None\<rparr>"

definition day_old_blob :: blob where
  "day_old_blob = \<lparr>blob_name = ''old.txt'', blob_tier = Some ''Archive'', last_modified = 0,
     now_utc = 86400000000, delete_blob = None\<rparr>"

text \<open>An expired Archive blob that is gone by the time its deletion is requested.\<close>

definition vanished_blob :: blob where
  "vanished_blob = \<lparr>blob_name = ''gone.txt'', blob_tier = Some ''Archive'', last_modified = 0,
     now_utc = 8640000000000,
     delete_blob = Some (Exn ResourceNotFoundError ''The specified blob does not exist.'')\<rparr>"

definition vanishing_storage :: storage where
  "vanishing_storage =
     scenario_storage\<lparr>list_containers :=
       Inr [\<lparr>container_name = ''archive1'', list_blobs = Inr [vanished_blob, x_txt, y_txt]\<rparr>]\<rparr>"

text \<open>A container whose blobs cannot be listed, in an account that also holds \<^verbatim>\<open>archive1\<close>.\<close>

definition locked_container :: container where
  "locked_container =
     \<lparr>container_name = ''locked'', list_blobs = Inl (Exn OtherException ''AuthorizationFailure'')\<rparr>"

definition partly_locked_storage :: storage where
  "partly_locked_storage = scenario_storage\<lparr>list_containers := Inr [locked_container, archive1]\<rparr>"

text \<open>Invocations with an empty environment.\<close>

definition unconfigured_storage :: storage where
  "unconfigured_storage = scenario_storage\<lparr>environ := Map.empty\<rparr>"

text \<open>
  A database where everything succeeds, and variations of it: the identity provider
  is down; both logins are rejected; the delete on \<^verbatim>\<open>Logs\<close> raises; it raises and the
  rollback raises as well; the table \<^verbatim>\<open>Logs\<close> is not in the catalog.
\<close>

definition healthy_cursor :: cursor where
  "healthy_cursor = \<lparr>fetchone = Inr (Some [SqlInt 1]), rowcount = 3\<rparr>"

definition healthy_database :: database where
  "healthy_database =
     \<lparr>environ = [''SQL_SERVER'' \<mapsto> ''srv'', ''SQL_DATABASE'' \<mapsto> ''db''], past_due = False,
      drivers = [''ODBC Driver 17 for SQL Server''],
      get_token = (\<lambda>scope. Inr ''token''),
      connect = (\<lambda>cs tok. None),
      execute = (\<lambda>sql params. Inr healthy_cursor),
      commit = (\<lambda>tr. None),
      rollback = (\<lambda>tr. None)\<rparr>"

definition token_provider_down :: database where
  "token_provider_down =
     healthy_database\<lparr>get_token := (\<lambda>scope. Inl (Exn OtherException ''credential unavailable''))\<rparr>"

definition logins_rejected :: database where
  "logins_rejected = healthy_database\<lparr>connect := (\<lambda>cs tok. Some (Exn PyodbcError ''login failed''))\<rparr>"

definition logs_delete_fails :: database where
  "logs_delete_fails =
     healthy_database\<lparr>execute := (\<lambda>sql params.
        if sql = delete_from_Logs then Inl (Exn PyodbcError ''deadlock'') else Inr healthy_cursor)\<rparr>"

definition connection_lost :: database where
  "connection_lost =
     logs_delete_fails\<lparr>rollback := (\<lambda>tr. Some (Exn PyodbcError ''communication link failure''))\<rparr>"

definition logs_table_absent :: database where
  "logs_table_absent =
     healthy_database\<lparr>execute := (\<lambda>sql params.
        if sql = catalog_query ''Logs'' then Inr \<lparr>fetchone = Inr (Some [SqlInt 0]), rowcount = 0\<rparr>
        else Inr healthy_cursor)\<rparr>"

definition unconfigured_database :: database where
  "unconfigured_database = healthy_database\<lparr>environ := Map.empty\<rparr>"


section \<open>The trace and the counters under logging and calls\<close>

lemma trace_logging: "trace (logging lv m st) = trace st @ [Log lv m]"
  by (simp add: logging_def)

lemma trace_call: "trace (call c st) = trace st @ [Call c]"
  by (simp add: call_def)

lemma counters_logging:
  "deleted_count (logging lv m st) = deleted_count st"
  "processed_count (logging lv m st) = processed_count st"
  "error_count (logging lv m st) = error_count st"
  by (simp_all add: logging_def)

lemma counters_call:
  "deleted_count (call c st) = deleted_count st"
  "processed_count (call c st) = processed_count st"
  "error_count (call c st) = error_count st"
  by (simp_all add: call_def)

lemma trace_init_counters: "trace (init_counters st) = trace st"
  by (simp add: init_counters_def)

lemma calls_of_append: "calls_of (xs @ ys) = calls_of xs @ calls_of ys"
  by (simp add: calls_of_def)

lemma calls_of_Cons: "calls_of (ev # tr) = (case ev of Call c \<Rightarrow> [c] | Log lv m \<Rightarrow> []) @ calls_of tr"
  by (simp add: calls_of_def)

lemma calls_of_Nil: "calls_of [] = []"
  by (simp add: calls_of_def)

lemmas calls_of_simps = calls_of_append calls_of_Cons calls_of_Nil

section \<open>Evaluating the string operations on the two statements\<close>

lemma py_int_90: "py_int ''90'' = Inr 90"
  by code_simp

lemma table_name_of_Logs: "table_name_of delete_from_Logs = Inr ''Logs''"
  by code_simp

lemma table_name_of_AuditTrail: "table_name_of delete_from_AuditTrail = Inr ''AuditTrail''"
  by code_simp

lemma count_query_Logs: "count_query delete_from_Logs = ''\<newline>                    SELECT COUNT(*) FROM Logs \<newline>                    WHERE CreatedDate < DATEADD(day, ?, GETDATE())\<newline>                    ''"
  by code_simp

lemma count_query_AuditTrail: "count_query delete_from_AuditTrail = ''\<newline>                    SELECT COUNT(*) FROM AuditTrail \<newline>                    WHERE Timestamp < DATEADD(day, ?, GETDATE())\<newline>                    ''"
  by code_simp

lemma cleanup_queries_cases:
  "query \<in> set cleanup_queries \<Longrightarrow> query = delete_from_Logs \<or> query = delete_from_AuditTrail"
  by (auto simp add: cleanup_queries_def)

lemma statement_facts:
  "(catalog_query tname = delete_from_Logs) = False"
  "(catalog_query tname = delete_from_AuditTrail) = False"
  "(catalog_query tname = count_query delete_from_Logs) = False"
  "(catalog_query tname = count_query delete_from_AuditTrail) = False"
  "(count_query delete_from_Logs = delete_from_Logs) = False"
  "(count_query delete_from_AuditTrail = delete_from_Logs) = False"
  "(delete_from_AuditTrail = delete_from_Logs) = False"
  "(''SELECT @@VERSION'' = delete_from_Logs) = False"
  "(''SELECT @@VERSION'' = catalog_query tname) = False"
  "(count_query delete_from_Logs = catalog_query tname) = False"
  "(count_query delete_from_AuditTrail = catalog_query tname) = False"
  "(delete_from_Logs = catalog_query tname) = False"
  "(delete_from_AuditTrail = catalog_query tname) = False"
  unfolding count_query_Logs count_query_AuditTrail
  by (simp_all add: catalog_query_def delete_from_Logs_def delete_from_AuditTrail_def)

lemma catalog_query_distinct:
  assumes "query \<in> set cleanup_queries"
  shows "catalog_query tname \<noteq> query \<and> catalog_query tname \<noteq> count_query query"
  using cleanup_queries_cases[OF assms]
  by (auto simp add: statement_facts)

section \<open>The decisions of the blob function\<close>

lemma decisions_append: "decisions (xs @ ys) = decisions xs @ decisions ys"
  by (simp add: decisions_def)

lemma decisions_Nil: "decisions [] = []"
  by (simp add: decisions_def)

lemma decisions_Cons: "decisions (ev # tr) = decision_of ev @ decisions tr"
  by (simp add: decisions_def)

lemmas decisions_simps = decisions_append decisions_Cons decisions_Nil

lemma should_delete_code:
  "should_delete rd b = (blob_tier b = Some ''Archive'' \<and> timedelta_days (now_utc b) (last_modified b) > rd)"
  by (simp only: should_delete_def timedelta_days_def floor_divide_of_int_eq)

lemma decisions_process_blob:
  "decisions (trace (process_blob rd c b st)) = decisions (trace st) @ [(blob_name b, should_delete rd b)]"
  by (simp add: process_blob_def Let_def should_delete_code trace_logging trace_call decisions_simps
       decision_of_def split: option.splits)

lemma decisions_process_blobs:
  "decisions (trace (process_blobs rd c bs st))
     = decisions (trace st) @ map (\<lambda>b. (blob_name b, should_delete rd b)) bs"
  by (induction bs arbitrary: st) (simp_all add: decisions_process_blob)

lemma decisions_process_container:
  "decisions (trace (process_container rd c st))
     = decisions (trace st) @ map (\<lambda>b. (blob_name b, should_delete rd b)) (enumerated [c])"
  by (simp add: process_container_def Let_def enumerated_def decisions_process_blobs trace_logging trace_call
       decisions_simps decision_of_def split: sum.splits)

lemma enumerated_Cons: "enumerated (c # cs) = enumerated [c] @ enumerated cs"
  by (simp add: enumerated_def)

lemma decisions_process_containers:
  "decisions (trace (process_containers rd cs st))
     = decisions (trace st) @ map (\<lambda>b. (blob_name b, should_delete rd b)) (enumerated cs)"
proof (induction cs arbitrary: st)
  case Nil
  show ?case by (simp add: enumerated_def)
next
  case (Cons c cs)
  show ?case
    by (simp add: Cons.IH decisions_process_container enumerated_Cons[of c cs])
qed

lemma decisions_cleanup:
  "decisions (trace (cleanup rd cs st))
     = decisions (trace st) @ map (\<lambda>b. (blob_name b, should_delete rd b)) (enumerated cs)"
  by (simp add: cleanup_def Let_def trace_init_counters trace_logging decisions_simps decisions_process_containers
        decision_of_def)

lemma decisions_blob_main:
  assumes "py_int (case environ w ''RETENTION_DAYS'' of None \<Rightarrow> ''90'' | Some v \<Rightarrow> v) = Inr retention_days"
    and "environ w ''STORAGE_ACCOUNT_NAME'' = Some account_name" and "account_name \<noteq> []"
    and "get_account_information w = Inr sku_name"
    and "list_containers w = Inr containers"
  shows "decisions (trace (snd (blob_main w)))
           = map (\<lambda>b. (blob_name b, should_delete retention_days b)) (enumerated containers)"
  using assms
  by (simp add: blob_main_def blob_body_def Let_def blob_start_def decisions_cleanup trace_logging
        trace_call decisions_simps decision_of_def)

lemma skipped_blob_untouched:
  assumes "\<not> should_delete rd b"
  shows "calls_of (trace (process_blob rd c b st)) = calls_of (trace st)
         \<and> deleted_count (process_blob rd c b st) = deleted_count st
         \<and> error_count (process_blob rd c b st) = error_count st"
  using assms
  by (auto simp add: process_blob_def Let_def should_delete_code trace_logging trace_call counters_logging
        calls_of_simps)

section \<open>The counters of the blob function\<close>

lemma processed_count_process_blob:
  "processed_count (process_blob rd c b st) = processed_count st + 1"
  by (simp add: process_blob_def Let_def counters_logging counters_call split: option.splits)

lemma processed_count_process_blobs:
  "processed_count (process_blobs rd c bs st) = processed_count st + int (length bs)"
  by (induction bs arbitrary: st) (simp_all add: processed_count_process_blob)

lemma process_blob_counters:
  "processed_count (process_blob rd c b st) = processed_count st + 1
   \<and> deleted_count (process_blob rd c b st) - deleted_count st \<in> {0, 1}
   \<and> error_count (process_blob rd c b st) - error_count st \<in> {0, 1}
   \<and> (deleted_count (process_blob rd c b st) - deleted_count st)
       + (error_count (process_blob rd c b st) - error_count st) \<in> {0, 1}"
  by (simp add: process_blob_def Let_def counters_logging counters_call split: option.splits)

lemma loop_step_counters:
  assumes "loop_step rd st st'"
  shows "processed_count st' - processed_count st \<in> {0, 1}
         \<and> deleted_count st' - deleted_count st \<in> {0, 1}
         \<and> error_count st' - error_count st \<in> {0, 1}
         \<and> deleted_count st' - deleted_count st \<le> processed_count st' - processed_count st"
  using assms
proof cases
  case (blob_processed cname b)
  then show ?thesis using process_blob_counters[of rd cname b st] by auto
qed (simp_all add: counters_logging counters_call)

lemma loop_steps_invariant:
  assumes "(loop_step rd)\<^sup>*\<^sup>* st st'"
    and "0 \<le> deleted_count st" and "deleted_count st \<le> processed_count st" and "0 \<le> error_count st"
  shows "0 \<le> deleted_count st' \<and> deleted_count st' \<le> processed_count st' \<and> 0 \<le> error_count st'"
  using assms
proof (induction rule: rtranclp_induct)
  case base
  then show ?case by simp
next
  case (step y z)
  then show ?case using loop_step_counters[of rd y z] by auto
qed

lemma loop_steps_process_blobs: "(loop_step rd)\<^sup>*\<^sup>* st (process_blobs rd c bs st)"
proof (induction bs arbitrary: st)
  case Nil
  show ?case by simp
next
  case (Cons b bs)
  have "loop_step rd st (process_blob rd c b st)" by (rule loop_step.blob_processed)
  with Cons.IH[of "process_blob rd c b st"] show ?case
    by (simp add: converse_rtranclp_into_rtranclp)
qed

lemma loop_steps_process_container: "(loop_step rd)\<^sup>*\<^sup>* st (process_container rd c st)"
proof -
  let ?st1 = "logging INFO [Lit ''Processing container: '', Fmt (PyStr (container_name c))] st"
  let ?st2 = "call (ListBlobs (container_name c)) ?st1"
  have "loop_step rd st ?st1" by (rule loop_step.log_line)
  then have s1: "(loop_step rd)\<^sup>*\<^sup>* st ?st1" by (rule r_into_rtranclp)
  have "loop_step rd ?st1 ?st2" by (rule loop_step.sdk_call)
  with s1 have s2: "(loop_step rd)\<^sup>*\<^sup>* st ?st2" by (rule rtranclp.rtrancl_into_rtrancl)
  show ?thesis
  proof (cases "list_blobs c")
    case (Inl e)
    let ?st3 = "logging ERROR [Lit ''Error processing container '', Fmt (PyStr (container_name c)),
                             Lit '': '', Fmt (ExnStr e)] ?st2"
    have "loop_step rd ?st2 ?st3" by (rule loop_step.log_line)
    with s2 have s3: "(loop_step rd)\<^sup>*\<^sup>* st ?st3" by (rule rtranclp.rtrancl_into_rtrancl)
    have "loop_step rd ?st3 (?st3\<lparr>error_count := error_count ?st3 + 1\<rparr>)"
      by (rule loop_step.container_failed)
    with s3 have s4: "(loop_step rd)\<^sup>*\<^sup>* st (?st3\<lparr>error_count := error_count ?st3 + 1\<rparr>)"
      by (rule rtranclp.rtrancl_into_rtrancl)
    have "process_container rd c st = ?st3\<lparr>error_count := error_count ?st3 + 1\<rparr>"
      using Inl by (simp add: process_container_def Let_def counters_logging)
    with s4 show ?thesis by simp
  next
    case (Inr bs)
    let ?st3 = "logging INFO [Lit ''Found '', Fmt (PyInt (int (length bs))),
                              Lit '' blobs in container '', Fmt (PyStr (container_name c))] ?st2"
    have "loop_step rd ?st2 ?st3" by (rule loop_step.log_line)
    with s2 have s3: "(loop_step rd)\<^sup>*\<^sup>* st ?st3" by (rule rtranclp.rtrancl_into_rtrancl)
    have "(loop_step rd)\<^sup>*\<^sup>* ?st3 (process_blobs rd (container_name c) bs ?st3)"
      by (rule loop_steps_process_blobs)
    with s3 have s4: "(loop_step rd)\<^sup>*\<^sup>* st (process_blobs rd (container_name c) bs ?st3)"
      by (rule rtranclp_trans)
    have "process_container rd c st = process_blobs rd (container_name c) bs ?st3"
      using Inr by (simp add: process_container_def Let_def)
    with s4 show ?thesis by simp
  qed
qed

lemma loop_steps_process_containers: "(loop_step rd)\<^sup>*\<^sup>* st (process_containers rd cs st)"
proof (induction cs arbitrary: st)
  case Nil
  show ?case by simp
next
  case (Cons c cs)
  from loop_steps_process_container[of rd st c] Cons.IH[of "process_container rd c st"]
  have "(loop_step rd)\<^sup>*\<^sup>* st (process_containers rd cs (process_container rd c st))"
    by (rule rtranclp_trans)
  then show ?case by simp
qed

section \<open>The containers the blob function lists\<close>

lemma listed_append: "listed (xs @ ys) = listed xs @ listed ys"
  by (simp add: listed_def)

lemma listed_Cons: "listed (ev # tr) = (case ev of Call (ListBlobs n) \<Rightarrow> [n] | _ \<Rightarrow> []) @ listed tr"
  by (simp add: listed_def)

lemma listed_Nil: "listed [] = []"
  by (simp add: listed_def)

lemmas listed_simps = listed_append listed_Cons listed_Nil

lemma listed_process_blob: "listed (trace (process_blob rd c b st)) = listed (trace st)"
  by (simp add: process_blob_def Let_def trace_logging trace_call listed_simps split: option.splits)

lemma listed_process_blobs: "listed (trace (process_blobs rd c bs st)) = listed (trace st)"
  by (induction bs arbitrary: st) (simp_all add: listed_process_blob)

lemma listed_process_container:
  "listed (trace (process_container rd c st)) = listed (trace st) @ [container_name c]"
  by (simp add: process_container_def Let_def trace_logging trace_call listed_simps listed_process_blobs
        split: sum.splits)

lemma listed_process_containers:
  "listed (trace (process_containers rd cs st)) = listed (trace st) @ map container_name cs"
  by (induction cs arbitrary: st) (simp_all add: listed_process_container)

lemma blob_main_returns:
  assumes "py_int (case environ w ''RETENTION_DAYS'' of None \<Rightarrow> ''90'' | Some v \<Rightarrow> v) = Inr retention_days"
    and "environ w ''STORAGE_ACCOUNT_NAME'' = Some account_name" and "account_name \<noteq> []"
    and "get_account_information w = Inr sku_name"
    and "list_containers w = Inr containers"
  shows "fst (blob_main w) = None"
  using assms by (simp add: blob_main_def blob_body_def Let_def)

lemma listed_blob_main:
  assumes "py_int (case environ w ''RETENTION_DAYS'' of None \<Rightarrow> ''90'' | Some v \<Rightarrow> v) = Inr retention_days"
    and "environ w ''STORAGE_ACCOUNT_NAME'' = Some account_name" and "account_name \<noteq> []"
    and "get_account_information w = Inr sku_name"
    and "list_containers w = Inr containers"
  shows "listed (trace (snd (blob_main w))) = map container_name containers"
  using assms
  by (simp add: blob_main_def blob_body_def Let_def cleanup_def blob_start_def trace_logging trace_call
        trace_init_counters listed_simps listed_process_containers)

text \<open>
  Listing the containers themselves (lines 44 to 50) is not isolated: its failure is
  logged and raised again, and no container is visited.
\<close>

lemma listing_the_containers_fails_is_fatal:
  assumes "py_int (case environ w ''RETENTION_DAYS'' of None \<Rightarrow> ''90'' | Some v \<Rightarrow> v) = Inr retention_days"
    and "environ w ''STORAGE_ACCOUNT_NAME'' = Some account_name" and "account_name \<noteq> []"
    and "get_account_information w = Inr sku_name"
    and "list_containers w = Inl container_error"
  shows "fst (blob_main w) = Some container_error \<and> listed (trace (snd (blob_main w))) = []"
  using assms
  by (simp add: blob_main_def blob_body_def Let_def blob_start_def trace_logging trace_call listed_simps)


section \<open>The authentication calls of the database function\<close>

lemma auth_calls_logging: "auth_calls (trace (logging lv m st)) = auth_calls (trace st)"
  by (simp add: auth_calls_def logging_def calls_of_simps)

lemma auth_calls_call:
  "auth_calls (trace (call c st)) = auth_calls (trace st) @ (if is_auth_call c then [c] else [])"
  by (simp add: auth_calls_def call_def calls_of_simps)

lemma auth_calls_field_updates:
  "auth_calls (trace (st\<lparr>pending := p\<rparr>)) = auth_calls (trace st)"
  "auth_calls (trace (st\<lparr>committed := q\<rparr>)) = auth_calls (trace st)"
  "auth_calls (trace (st\<lparr>total_deleted := n\<rparr>)) = auth_calls (trace st)"
  "auth_calls (trace (st\<lparr>table_name := t\<rparr>)) = auth_calls (trace st)"
  by simp_all

lemmas auth_calls_simps = auth_calls_logging auth_calls_call auth_calls_field_updates

lemma auth_calls_cursor_execute:
  "auth_calls (trace (snd (cursor_execute w sql ps st))) = auth_calls (trace st)"
  by (simp add: cursor_execute_def Let_def auth_calls_simps is_auth_call_def split: sum.splits)

lemma auth_calls_conn_commit:
  "auth_calls (trace (snd (conn_commit w st))) = auth_calls (trace st)"
  by (simp add: conn_commit_def Let_def auth_calls_simps is_auth_call_def split: option.splits)

lemma auth_calls_conn_rollback:
  "auth_calls (trace (snd (conn_rollback w st))) = auth_calls (trace st)"
  by (simp add: conn_rollback_def Let_def auth_calls_simps is_auth_call_def split: option.splits)

lemma auth_calls_after_cursor_execute:
  "cursor_execute w sql ps st = (r, st') \<Longrightarrow> auth_calls (trace st') = auth_calls (trace st)"
  using auth_calls_cursor_execute[of w sql ps st] by simp

lemma auth_calls_after_conn_commit:
  "conn_commit w st = (r, st') \<Longrightarrow> auth_calls (trace st') = auth_calls (trace st)"
  using auth_calls_conn_commit[of w st] by simp

lemma auth_calls_after_conn_rollback:
  "conn_rollback w st = (r, st') \<Longrightarrow> auth_calls (trace st') = auth_calls (trace st)"
  using auth_calls_conn_rollback[of w st] by simp

lemma auth_calls_delete_rows:
  "auth_calls (trace (snd (delete_rows w rd query tname st))) = auth_calls (trace st)"
  by (auto simp add: delete_rows_def Let_def auth_calls_simps auth_calls_conn_commit
        split: sum.splits prod.splits dest!: auth_calls_after_cursor_execute)

lemma auth_calls_try_query:
  "auth_calls (trace (snd (try_query w rd query st))) = auth_calls (trace st)"
  by (auto simp add: try_query_def Let_def auth_calls_simps auth_calls_delete_rows
        split: sum.splits prod.splits dest!: auth_calls_after_cursor_execute)

lemma auth_calls_after_try_query:
  "try_query w rd query st = (r, st') \<Longrightarrow> auth_calls (trace st') = auth_calls (trace st)"
  using auth_calls_try_query[of w rd query st] by simp

lemma auth_calls_process_query:
  "auth_calls (trace (snd (process_query w rd query st))) = auth_calls (trace st)"
  by (auto simp add: process_query_def Let_def auth_calls_simps auth_calls_conn_rollback
        split: option.splits prod.splits dest!: auth_calls_after_try_query)

lemma auth_calls_after_process_query:
  "process_query w rd query st = (r, st') \<Longrightarrow> auth_calls (trace st') = auth_calls (trace st)"
  using auth_calls_process_query[of w rd query st] by simp

lemma auth_calls_process_queries:
  "auth_calls (trace (snd (process_queries w rd queries st))) = auth_calls (trace st)"
proof (induction queries arbitrary: st)
  case Nil
  show ?case by simp
next
  case (Cons query queries)
  show ?case
  proof (cases "process_query w rd query st")
    case (Pair r st1)
    then show ?thesis
      using Cons.IH[of st1] auth_calls_after_process_query[OF Pair]
      by (cases r) simp_all
  qed
qed

lemma auth_calls_after_process_queries:
  "process_queries w rd queries st = (r, st') \<Longrightarrow> auth_calls (trace st') = auth_calls (trace st)"
  using auth_calls_process_queries[of w rd queries st] by simp

lemma auth_calls_cursor_block:
  "auth_calls (trace (snd (cursor_block w rd st))) = auth_calls (trace st)"
  by (auto simp add: cursor_block_def Let_def auth_calls_simps
        split: sum.splits prod.splits option.splits
        dest!: auth_calls_after_cursor_execute auth_calls_after_process_queries)

lemma auth_calls_after_cursor_block:
  "cursor_block w rd st = (r, st') \<Longrightarrow> auth_calls (trace st') = auth_calls (trace st)"
  using auth_calls_cursor_block[of w rd st] by simp

lemma auth_calls_with_conn:
  "auth_calls (trace (snd (with_conn w rd st))) = auth_calls (trace st)"
  by (auto simp add: with_conn_def Let_def auth_calls_simps auth_calls_conn_commit
        split: prod.splits option.splits
        dest!: auth_calls_after_cursor_block auth_calls_after_conn_commit auth_calls_after_conn_rollback)

lemma auth_calls_open_connection:
  "auth_calls (trace (snd (open_connection w server db st)))
     = auth_calls (trace st) @ expected_auth_calls w server db"
  by (simp add: open_connection_def expected_auth_calls_def Let_def auth_calls_simps is_auth_call_def
        split: sum.splits option.splits)

lemma auth_calls_db_start: "auth_calls (trace db_start) = []"
  by (simp add: db_start_def auth_calls_def calls_of_def)

lemma fst_open_connection:
  "fst (open_connection w server db st) = auth_failure w server db"
  by (simp add: open_connection_def auth_failure_def Let_def split: sum.splits option.splits)

lemma db_main_auth:
  assumes "environ w ''SQL_SERVER'' = Some server" and "server \<noteq> []"
    and "environ w ''SQL_DATABASE'' = Some db" and "db \<noteq> []"
  shows "auth_calls (trace (snd (db_main w))) = expected_auth_calls w server db
         \<and> (\<forall>e. auth_failure w server db = Some e \<longrightarrow> fst (db_main w) = Some e)"
proof -
  let ?rd = "case environ w ''RETENTION_DAYS'' of None \<Rightarrow> ''90'' | Some v \<Rightarrow> v"
  let ?st5 = "logging INFO [Fmt (PyList (drivers w))]
               (logging INFO [Lit ''Available ODBC drivers:'']
                 (logging INFO [Lit ''RETENTION_DAYS configured: '', Fmt (PyStr ?rd)]
                   (logging INFO [Lit ''SQL_DATABASE configured: '', Fmt (PyStr ''Yes'')]
                     (logging INFO [Lit ''SQL_SERVER configured: '', Fmt (PyStr ''Yes'')]
                       (logging INFO [Lit ''Database cleanup function triggered''] db_start)))))"
  have body: "db_body w (logging INFO [Lit ''Database cleanup function triggered''] db_start)
      = (case open_connection w server db ?st5 of
           (Some e, st6) \<Rightarrow> (Some e, st6)
         | (None, st6) \<Rightarrow> with_conn w ?rd st6)"
    using assms by (simp add: db_body_def Let_def truthy_def)
  have st5: "auth_calls (trace ?st5) = []"
    by (simp add: auth_calls_simps auth_calls_db_start)
  obtain r st6 where oc: "open_connection w server db ?st5 = (r, st6)"
    by (cases "open_connection w server db ?st5")
  have a6: "auth_calls (trace st6) = expected_auth_calls w server db"
    using auth_calls_open_connection[of w server db ?st5] oc st5 by simp
  have r: "r = auth_failure w server db"
    using fst_open_connection[of w server db ?st5] oc by simp
  show ?thesis
  proof (cases r)
    case None
    obtain r' st7 where wc: "with_conn w ?rd st6 = (r', st7)"
      by (cases "with_conn w ?rd st6")
    have "auth_calls (trace st7) = auth_calls (trace st6)"
      using auth_calls_with_conn[of w ?rd st6] wc by simp
    then show ?thesis
      using None oc wc a6 body r
      by (cases r') (simp_all add: db_main_def auth_calls_simps)
  next
    case (Some e)
    then show ?thesis
      using oc a6 body r by (simp add: db_main_def auth_calls_simps)
  qed
qed

section \<open>Only statements that succeeded are ever committed\<close>

lemma journal_logging: "journal (logging lv m st) = journal st"
  by (simp add: journal_def logging_def)

lemma journal_call: "journal (call c st) = journal st"
  by (simp add: journal_def call_def)

lemma journal_field_updates:
  "journal (st\<lparr>total_deleted := n\<rparr>) = journal st"
  "journal (st\<lparr>table_name := t\<rparr>) = journal st"
  by (simp_all add: journal_def)

lemmas journal_simps = journal_logging journal_call journal_field_updates

lemma journal_cursor_execute:
  assumes "cursor_execute w sql ps st = (r, st')"
  shows "journal st' \<subseteq> journal st \<union> succeeded w"
proof (cases "execute w sql ps")
  case (Inl e)
  with assms show ?thesis
    by (auto simp add: cursor_execute_def Let_def journal_def call_def)
next
  case (Inr cur)
  then have "(sql, ps) \<in> succeeded w"
    by (simp add: succeeded_def)
  with assms Inr show ?thesis
    by (auto simp add: cursor_execute_def Let_def journal_def call_def)
qed

lemma journal_conn_commit:
  "conn_commit w st = (r, st') \<Longrightarrow> journal st' \<subseteq> journal st \<union> succeeded w"
  by (auto simp add: conn_commit_def Let_def journal_def call_def split: option.splits)

lemma journal_conn_rollback:
  "conn_rollback w st = (r, st') \<Longrightarrow> journal st' \<subseteq> journal st \<union> succeeded w"
  by (auto simp add: conn_rollback_def Let_def journal_def call_def split: option.splits)

lemma journal_delete_rows:
  "delete_rows w rd query tname st = (r, st') \<Longrightarrow> journal st' \<subseteq> journal st \<union> succeeded w"
  by (fastforce simp add: delete_rows_def Let_def journal_simps
        split: sum.splits prod.splits
        dest!: journal_cursor_execute journal_conn_commit)

lemma journal_try_query:
  "try_query w rd query st = (r, st') \<Longrightarrow> journal st' \<subseteq> journal st \<union> succeeded w"
  by (fastforce simp add: try_query_def Let_def journal_simps
        split: sum.splits prod.splits if_splits
        dest!: journal_cursor_execute journal_delete_rows)

lemma journal_process_query:
  "process_query w rd query st = (r, st') \<Longrightarrow> journal st' \<subseteq> journal st \<union> succeeded w"
  by (fastforce simp add: process_query_def Let_def journal_simps
        split: option.splits prod.splits
        dest!: journal_try_query journal_conn_rollback)

lemma journal_process_queries:
  "process_queries w rd queries st = (r, st') \<Longrightarrow> journal st' \<subseteq> journal st \<union> succeeded w"
proof (induction queries arbitrary: st)
  case Nil
  then show ?case by auto
next
  case (Cons query queries)
  obtain r1 st1 where pq: "process_query w rd query st = (r1, st1)"
    by (cases "process_query w rd query st")
  have j1: "journal st1 \<subseteq> journal st \<union> succeeded w"
    using journal_process_query[OF pq] .
  show ?case
  proof (cases r1)
    case None
    then have "process_queries w rd queries st1 = (r, st')"
      using Cons.prems pq by simp
    from Cons.IH[OF this] j1 show ?thesis by blast
  next
    case (Some e)
    then have "st' = st1" using Cons.prems pq by simp
    with j1 show ?thesis by simp
  qed
qed

lemma journal_cursor_block:
  "cursor_block w rd st = (r, st') \<Longrightarrow> journal st' \<subseteq> journal st \<union> succeeded w"
  by (fastforce simp add: cursor_block_def Let_def journal_simps
        split: sum.splits prod.splits option.splits
        dest!: journal_cursor_execute journal_process_queries)

lemma journal_with_conn:
  "with_conn w rd st = (r, st') \<Longrightarrow> journal st' \<subseteq> journal st \<union> succeeded w"
  by (fastforce simp add: with_conn_def Let_def journal_simps
        split: prod.splits option.splits
        dest!: journal_cursor_block journal_conn_commit journal_conn_rollback)

lemma journal_open_connection:
  "open_connection w server db st = (r, st') \<Longrightarrow> journal st' = journal st"
  by (auto simp add: open_connection_def Let_def journal_simps split: sum.splits option.splits if_splits)

lemma journal_db_body:
  "db_body w st = (r, st') \<Longrightarrow> journal st' \<subseteq> journal st \<union> succeeded w"
  by (fastforce simp add: db_body_def Let_def journal_simps
        split: prod.splits option.splits if_splits
        dest!: journal_open_connection journal_with_conn)

lemma journal_db_main: "journal (snd (db_main w)) \<subseteq> succeeded w"
proof -
  obtain r st where b: "db_body w (logging INFO [Lit ''Database cleanup function triggered''] db_start) = (r, st)"
    by (cases "db_body w (logging INFO [Lit ''Database cleanup function triggered''] db_start)")
  have "journal st \<subseteq> journal db_start \<union> succeeded w"
    using journal_db_body[OF b] by (simp add: journal_simps)
  moreover have "journal db_start = {}"
    by (simp add: journal_def db_start_def)
  moreover have "journal (snd (db_main w)) = journal st"
    using b by (cases r) (simp_all add: db_main_def journal_simps)
  ultimately show ?thesis by simp
qed

lemma failed_statement_never_committed:
  assumes "execute w sql params = Inl e"
  shows "(sql, params) \<notin> set (committed (snd (db_main w)))"
proof -
  have "(sql, params) \<notin> succeeded w"
    using assms by (simp add: succeeded_def)
  then show ?thesis
    using journal_db_main[of w] by (auto simp add: journal_def)
qed

section \<open>Every iteration of the database loop starts with the catalog lookup\<close>

lemma trace_cursor_execute:
  "trace (snd (cursor_execute w sql ps st)) = trace st @ [Call (Execute sql ps)]"
  by (simp add: cursor_execute_def Let_def call_def split: sum.splits)

lemma trace_cursor_execute_eq:
  "cursor_execute w sql ps st = (r, st') \<Longrightarrow> trace st' = trace st @ [Call (Execute sql ps)]"
  using trace_cursor_execute[of w sql ps st] by simp

lemma trace_conn_commit_eq:
  "conn_commit w st = (r, st') \<Longrightarrow> trace st' = trace st @ [Call Commit]"
  by (auto simp add: conn_commit_def Let_def call_def split: option.splits)

lemma trace_conn_rollback_eq:
  "conn_rollback w st = (r, st') \<Longrightarrow> trace st' = trace st @ [Call Rollback]"
  by (auto simp add: conn_rollback_def Let_def call_def split: option.splits)

lemma trace_delete_rows:
  "delete_rows w rd query tname st = (r, st') \<Longrightarrow> \<exists>evs. trace st' = trace st @ evs"
  by (auto simp add: delete_rows_def Let_def logging_def
        split: sum.splits prod.splits
        dest!: trace_cursor_execute_eq trace_conn_commit_eq)

lemma trace_try_query:
  assumes "table_name_of query = Inr tname"
    and "try_query w rd query st = (r, st')"
  shows "\<exists>evs. trace st' = trace st @ Call (Execute (catalog_query tname) []) # evs"
  using assms
  by (auto simp add: try_query_def Let_def logging_def
        split: sum.splits prod.splits if_splits
        dest!: trace_cursor_execute_eq trace_delete_rows)

lemma trace_process_query:
  assumes "table_name_of query = Inr tname"
  shows "\<exists>evs. trace (snd (process_query w rd query st))
                 = trace st @ Call (Execute (catalog_query tname) []) # evs"
proof -
  obtain r st1 where tq: "try_query w rd query st = (r, st1)"
    by (cases "try_query w rd query st")
  from trace_try_query[OF assms tq]
  obtain evs where e: "trace st1 = trace st @ Call (Execute (catalog_query tname) []) # evs"
    by blast
  show ?thesis
  proof (cases r)
    case None
    with tq e show ?thesis by (simp add: process_query_def)
  next
    case (Some query_error)
    show ?thesis
    proof (cases "table_name st1")
      case None
      with Some tq e show ?thesis by (simp add: process_query_def)
    next
      case (Some tn)
      obtain r2 st2 where rb: "conn_rollback w (logging ERROR [Lit ''Error executing query on '', Fmt (PyStr tn),
                                  Lit '': '', Fmt (ExnStr query_error)] st1) = (r2, st2)"
        by (cases "conn_rollback w (logging ERROR [Lit ''Error executing query on '', Fmt (PyStr tn),
                                  Lit '': '', Fmt (ExnStr query_error)] st1)")
      from trace_conn_rollback_eq[OF rb] e
      have "trace st2 = trace st @ Call (Execute (catalog_query tname) [])
               # (evs @ [Log ERROR [Lit ''Error executing query on '', Fmt (PyStr tn),
                                  Lit '': '', Fmt (ExnStr query_error)], Call Rollback])"
        by (simp add: logging_def)
      with Some \<open>r = Some query_error\<close> tq rb show ?thesis
        by (simp add: process_query_def)
    qed
  qed
qed

section \<open>The statements a database run executes\<close>

lemma statements_append: "statements (xs @ ys) = statements xs @ statements ys"
  by (simp add: statements_def)

lemma statements_Cons:
  "statements (ev # tr) = (case ev of Call (Execute sql ps) \<Rightarrow> [sql] | _ \<Rightarrow> []) @ statements tr"
  by (simp add: statements_def)

lemma statements_Nil: "statements [] = []"
  by (simp add: statements_def)

lemmas statements_simps = statements_append statements_Cons statements_Nil

lemma statements_logging: "statements (trace (logging lv m st)) = statements (trace st)"
  by (simp add: logging_def statements_simps)

lemma statements_cursor_execute:
  "cursor_execute w sql ps st = (r, st') \<Longrightarrow> statements (trace st') = statements (trace st) @ [sql]"
  using trace_cursor_execute_eq[of w sql ps st r st'] by (simp add: statements_simps)

lemma statements_conn_commit:
  "conn_commit w st = (r, st') \<Longrightarrow> statements (trace st') = statements (trace st)"
  using trace_conn_commit_eq[of w st r st'] by (simp add: statements_simps)

lemma statements_conn_rollback:
  "conn_rollback w st = (r, st') \<Longrightarrow> statements (trace st') = statements (trace st)"
  using trace_conn_rollback_eq[of w st r st'] by (simp add: statements_simps)

lemma statements_delete_rows:
  "delete_rows w rd query tname st = (r, st')
   \<Longrightarrow> set (statements (trace st')) \<subseteq> set (statements (trace st)) \<union> {count_query query, query}"
  by (auto simp add: delete_rows_def Let_def statements_logging
        split: sum.splits prod.splits
        dest!: statements_cursor_execute statements_conn_commit)

lemma fst_cursor_execute: "fst (cursor_execute w sql ps st) = execute w sql ps"
  by (simp add: cursor_execute_def Let_def split: sum.splits)

lemma statements_try_query:
  assumes "try_query w rd query st = (r, st')"
  shows "set (statements (trace st')) \<subseteq> set (statements (trace st)) \<union> may_execute w query"
proof (cases "table_name_of query")
  case (Inl e)
  with assms show ?thesis by (simp add: try_query_def)
next
  case (Inr tname)
  obtain r1 st1 where ce: "cursor_execute w (catalog_query tname) [] (st\<lparr>table_name := Some tname\<rparr>) = (r1, st1)"
    by (cases "cursor_execute w (catalog_query tname) [] (st\<lparr>table_name := Some tname\<rparr>)")
  have s1: "statements (trace st1) = statements (trace st) @ [catalog_query tname]"
    using statements_cursor_execute[OF ce] by simp
  have r1: "r1 = execute w (catalog_query tname) []"
    using fst_cursor_execute[of w "catalog_query tname" "[]" "st\<lparr>table_name := Some tname\<rparr>"] ce by simp
  show ?thesis
  proof (cases "execute w (catalog_query tname) []")
    case (Inl e)
    with assms Inr ce r1 s1 show ?thesis
      by (simp add: try_query_def may_execute_def)
  next
    case cur: (Inr catalog_cursor)
    show ?thesis
    proof (cases "fetchone_0 catalog_cursor")
      case (Inl e)
      with assms Inr ce r1 s1 cur show ?thesis
        by (simp add: try_query_def may_execute_def)
    next
      case n: (Inr n)
      show ?thesis
      proof (cases "n = SqlInt 0")
        case True
        with assms Inr ce r1 s1 cur n show ?thesis
          by (auto simp add: try_query_def may_execute_def statements_logging)
      next
        case False
        with assms Inr ce r1 cur n have "delete_rows w rd query tname st1 = (r, st')"
          by (simp add: try_query_def)
        from statements_delete_rows[OF this] s1 False Inr cur n show ?thesis
          by (auto simp add: may_execute_def)
      qed
    qed
  qed
qed

lemma statements_process_query:
  "process_query w rd query st = (r, st')
   \<Longrightarrow> set (statements (trace st')) \<subseteq> set (statements (trace st)) \<union> may_execute w query"
  by (fastforce simp add: process_query_def Let_def statements_logging
        split: option.splits prod.splits
        dest!: statements_try_query statements_conn_rollback)

lemma statements_process_queries:
  "process_queries w rd queries st = (r, st')
   \<Longrightarrow> set (statements (trace st')) \<subseteq> set (statements (trace st)) \<union> (\<Union>q \<in> set queries. may_execute w q)"
proof (induction queries arbitrary: st)
  case Nil
  then show ?case by auto
next
  case (Cons query queries)
  obtain r1 st1 where pq: "process_query w rd query st = (r1, st1)"
    by (cases "process_query w rd query st")
  have s1: "set (statements (trace st1)) \<subseteq> set (statements (trace st)) \<union> may_execute w query"
    using statements_process_query[OF pq] .
  show ?case
  proof (cases r1)
    case None
    then have "process_queries w rd queries st1 = (r, st')"
      using Cons.prems pq by simp
    from Cons.IH[OF this] s1 show ?thesis by auto
  next
    case (Some e)
    then have "st' = st1" using Cons.prems pq by simp
    with s1 show ?thesis by auto
  qed
qed

lemma statements_cursor_block:
  "cursor_block w rd st = (r, st')
   \<Longrightarrow> set (statements (trace st'))
       \<subseteq> set (statements (trace st)) \<union> {''SELECT @@VERSION''} \<union> (\<Union>q \<in> set cleanup_queries. may_execute w q)"
  by (fastforce simp add: cursor_block_def Let_def statements_logging
        split: sum.splits prod.splits option.splits
        dest!: statements_cursor_execute statements_process_queries)

lemma statements_with_conn:
  "with_conn w rd st = (r, st')
   \<Longrightarrow> set (statements (trace st'))
       \<subseteq> set (statements (trace st)) \<union> {''SELECT @@VERSION''} \<union> (\<Union>q \<in> set cleanup_queries. may_execute w q)"
  by (fastforce simp add: with_conn_def Let_def
        split: prod.splits option.splits
        dest!: statements_cursor_block statements_conn_commit statements_conn_rollback)

lemma statements_open_connection:
  "open_connection w server db st = (r, st') \<Longrightarrow> statements (trace st') = statements (trace st)"
  by (auto simp add: open_connection_def Let_def logging_def call_def statements_simps
        split: sum.splits option.splits if_splits)

lemma statements_db_body:
  "db_body w st = (r, st')
   \<Longrightarrow> set (statements (trace st'))
       \<subseteq> set (statements (trace st)) \<union> {''SELECT @@VERSION''} \<union> (\<Union>q \<in> set cleanup_queries. may_execute w q)"
  by (fastforce simp add: db_body_def Let_def statements_logging
        split: prod.splits option.splits if_splits
        dest!: statements_open_connection statements_with_conn)

lemma statements_db_main:
  "set (statements (trace (snd (db_main w))))
     \<subseteq> {''SELECT @@VERSION''} \<union> (\<Union>q \<in> set cleanup_queries. may_execute w q)"
proof -
  obtain r st where b: "db_body w (logging INFO [Lit ''Database cleanup function triggered''] db_start) = (r, st)"
    by (cases "db_body w (logging INFO [Lit ''Database cleanup function triggered''] db_start)")
  have "statements (trace (logging INFO [Lit ''Database cleanup function triggered''] db_start)) = []"
    by (simp add: statements_logging db_start_def statements_Nil)
  with statements_db_body[OF b]
  have "set (statements (trace st))
          \<subseteq> {''SELECT @@VERSION''} \<union> (\<Union>q \<in> set cleanup_queries. may_execute w q)"
    by simp
  moreover have "statements (trace (snd (db_main w))) = statements (trace st)"
    using b by (cases r) (simp_all add: db_main_def statements_logging)
  ultimately show ?thesis by simp
qed

lemma may_execute_subset:
  "table_name_of query = Inr tname \<Longrightarrow> may_execute w query \<subseteq> {catalog_query tname, count_query query, query}"
  by (auto simp add: may_execute_def split: sum.splits if_splits)

lemma may_execute_absent:
  assumes "table_name_of query = Inr tname"
    and "execute w (catalog_query tname) [] = Inr catalog_cursor"
    and "fetchone catalog_cursor = Inr (Some (SqlInt 0 # more_columns))"
  shows "may_execute w query = {catalog_query tname}"
  using assms by (simp add: may_execute_def fetchone_0_def py_index_def)

lemma more_statement_facts:
  "(delete_from_Logs = ''SELECT @@VERSION'') = False"
  "(delete_from_AuditTrail = ''SELECT @@VERSION'') = False"
  "(count_query delete_from_Logs = ''SELECT @@VERSION'') = False"
  "(count_query delete_from_AuditTrail = ''SELECT @@VERSION'') = False"
  "(delete_from_Logs = delete_from_AuditTrail) = False"
  "(delete_from_Logs = count_query delete_from_Logs) = False"
  "(delete_from_Logs = count_query delete_from_AuditTrail) = False"
  "(delete_from_AuditTrail = count_query delete_from_Logs) = False"
  "(delete_from_AuditTrail = count_query delete_from_AuditTrail) = False"
  "(count_query delete_from_Logs = delete_from_AuditTrail) = False"
  "(count_query delete_from_AuditTrail = delete_from_AuditTrail) = False"
  "(count_query delete_from_Logs = count_query delete_from_AuditTrail) = False"
  "(count_query delete_from_AuditTrail = count_query delete_from_Logs) = False"
  unfolding count_query_Logs count_query_AuditTrail
  by (simp_all add: delete_from_Logs_def delete_from_AuditTrail_def)

lemma absent_table_never_touched:
  assumes "query \<in> set cleanup_queries"
    and "table_name_of query = Inr tname"
    and "execute w (catalog_query tname) [] = Inr catalog_cursor"
    and "fetchone catalog_cursor = Inr (Some (SqlInt 0 # more_columns))"
  shows "query \<notin> set (statements (trace (snd (db_main w))))
         \<and> count_query query \<notin> set (statements (trace (snd (db_main w))))"
proof -
  have own: "may_execute w query = {catalog_query tname}"
    using assms(2-4) by (rule may_execute_absent)
  have L: "may_execute w delete_from_Logs
             \<subseteq> {catalog_query ''Logs'', count_query delete_from_Logs, delete_from_Logs}"
    using table_name_of_Logs by (rule may_execute_subset)
  have A: "may_execute w delete_from_AuditTrail
             \<subseteq> {catalog_query ''AuditTrail'', count_query delete_from_AuditTrail, delete_from_AuditTrail}"
    using table_name_of_AuditTrail by (rule may_execute_subset)
  have all: "set (statements (trace (snd (db_main w))))
               \<subseteq> {''SELECT @@VERSION''} \<union> may_execute w delete_from_Logs \<union> may_execute w delete_from_AuditTrail"
    using statements_db_main[of w] by (auto simp add: cleanup_queries_def)
  from cleanup_queries_cases[OF assms(1)] show ?thesis
  proof
    assume q: "query = delete_from_Logs"
    then have "tname = ''Logs''" using assms(2) table_name_of_Logs by simp
    with own q have "may_execute w delete_from_Logs = {catalog_query ''Logs''}" by simp
    with all A have "set (statements (trace (snd (db_main w))))
               \<subseteq> {''SELECT @@VERSION'', catalog_query ''Logs'', catalog_query ''AuditTrail'',
                   count_query delete_from_AuditTrail, delete_from_AuditTrail}"
      by auto
    then show ?thesis
      unfolding q by (auto simp add: statement_facts more_statement_facts)
  next
    assume q: "query = delete_from_AuditTrail"
    then have "tname = ''AuditTrail''" using assms(2) table_name_of_AuditTrail by simp
    with own q have "may_execute w delete_from_AuditTrail = {catalog_query ''AuditTrail''}" by simp
    with all L have "set (statements (trace (snd (db_main w))))
               \<subseteq> {''SELECT @@VERSION'', catalog_query ''Logs'', catalog_query ''AuditTrail'',
                   count_query delete_from_Logs, delete_from_Logs}"
      by auto
    then show ?thesis
      unfolding q by (auto simp add: statement_facts more_statement_facts)
  qed
qed

section \<open>The fields of the concrete runs\<close>

lemma healthy_database_fields:
  "environ healthy_database = [''SQL_SERVER'' \<mapsto> ''srv'', ''SQL_DATABASE'' \<mapsto> ''db'']"
  "drivers healthy_database = [''ODBC Driver 17 for SQL Server'']"
  "get_token healthy_database = (\<lambda>scope. Inr ''token'')"
  "connect healthy_database = (\<lambda>cs tok. None)"
  "execute healthy_database = (\<lambda>sql params. Inr healthy_cursor)"
  "commit healthy_database = (\<lambda>tr. None)"
  "rollback healthy_database = (\<lambda>tr. None)"
  by (simp_all add: healthy_database_def)

lemma logs_delete_fails_fields:
  "environ logs_delete_fails = [''SQL_SERVER'' \<mapsto> ''srv'', ''SQL_DATABASE'' \<mapsto> ''db'']"
  "drivers logs_delete_fails = [''ODBC Driver 17 for SQL Server'']"
  "get_token logs_delete_fails = (\<lambda>scope. Inr ''token'')"
  "connect logs_delete_fails = (\<lambda>cs tok. None)"
  "execute logs_delete_fails = (\<lambda>sql params.
        if sql = delete_from_Logs then Inl (Exn PyodbcError ''deadlock'') else Inr healthy_cursor)"
  "commit logs_delete_fails = (\<lambda>tr. None)"
  "rollback logs_delete_fails = (\<lambda>tr. None)"
  by (simp_all add: logs_delete_fails_def healthy_database_def)

lemma connection_lost_fields:
  "environ connection_lost = [''SQL_SERVER'' \<mapsto> ''srv'', ''SQL_DATABASE'' \<mapsto> ''db'']"
  "drivers connection_lost = [''ODBC Driver 17 for SQL Server'']"
  "get_token connection_lost = (\<lambda>scope. Inr ''token'')"
  "connect connection_lost = (\<lambda>cs tok. None)"
  "execute connection_lost = (\<lambda>sql params.
        if sql = delete_from_Logs then Inl (Exn PyodbcError ''deadlock'') else Inr healthy_cursor)"
  "commit connection_lost = (\<lambda>tr. None)"
  "rollback connection_lost = (\<lambda>tr. Some (Exn PyodbcError ''communication link failure''))"
  by (simp_all add: connection_lost_def logs_delete_fails_def healthy_database_def)

lemma logs_table_absent_fields:
  "execute logs_table_absent = (\<lambda>sql params.
        if sql = catalog_query ''Logs'' then Inr \<lparr>fetchone = Inr (Some [SqlInt 0]), rowcount = 0\<rparr>
        else Inr healthy_cursor)"
  "rollback logs_table_absent = (\<lambda>tr. None)"
  by (simp_all add: logs_table_absent_def healthy_database_def)

lemma logins_rejected_fields:
  "environ logins_rejected = [''SQL_SERVER'' \<mapsto> ''srv'', ''SQL_DATABASE'' \<mapsto> ''db'']"
  "get_token logins_rejected = (\<lambda>scope. Inr ''token'')"
  "connect logins_rejected = (\<lambda>cs tok. Some (Exn PyodbcError ''login failed''))"
  by (simp_all add: logins_rejected_def healthy_database_def)

lemma scenario_storage_fields:
  "environ scenario_storage = [''STORAGE_ACCOUNT_NAME'' \<mapsto> ''acct'', ''RETENTION_DAYS'' \<mapsto> ''90'']"
  "get_account_information scenario_storage = Inr ''Standard_LRS''"
  "list_containers scenario_storage = Inr [archive1]"
  by (simp_all add: scenario_storage_def)

lemma scenario_retention:
  "py_int (case environ scenario_storage ''RETENTION_DAYS'' of None \<Rightarrow> ''90'' | Some v \<Rightarrow> v) = Inr 90"
  by (simp add: scenario_storage_fields py_int_90)

lemma partly_locked_storage_fields:
  "environ partly_locked_storage = [''STORAGE_ACCOUNT_NAME'' \<mapsto> ''acct'', ''RETENTION_DAYS'' \<mapsto> ''90'']"
  "get_account_information partly_locked_storage = Inr ''Standard_LRS''"
  "list_containers partly_locked_storage = Inr [locked_container, archive1]"
  by (simp_all add: scenario_storage_def partly_locked_storage_def)

lemma partly_locked_retention:
  "py_int (case environ partly_locked_storage ''RETENTION_DAYS'' of None \<Rightarrow> ''90'' | Some v \<Rightarrow> v) = Inr 90"
  by (simp add: partly_locked_storage_fields py_int_90)

lemma vanishing_storage_fields:
  "environ vanishing_storage = [''STORAGE_ACCOUNT_NAME'' \<mapsto> ''acct'', ''RETENTION_DAYS'' \<mapsto> ''90'']"
  "get_account_information vanishing_storage = Inr ''Standard_LRS''"
  "list_containers vanishing_storage
     = Inr [\<lparr>container_name = ''archive1'', list_blobs = Inr [vanished_blob, x_txt, y_txt]\<rparr>]"
  by (simp_all add: scenario_storage_def vanishing_storage_def)

lemma vanishing_retention:
  "py_int (case environ vanishing_storage ''RETENTION_DAYS'' of None \<Rightarrow> ''90'' | Some v \<Rightarrow> v) = Inr 90"
  by (simp add: vanishing_storage_fields py_int_90)


section \<open>The blob cleanup function: which blobs are deleted\<close>

text \<open>
  C1. For every blob enumerated by the blob cleanup function, the function requests the
  deletion of the blob if and only if its tier is Archive and its age in whole days
  (the floor of \<open>now_utc - last_modified\<close> over one day) is strictly greater than
  \<open>retention_days\<close>; every other blob is reported as skipped and left untouched. Stated
  for a run whose configuration is valid and whose account probe and container listing
  succeed: the decisions of the run are, in order, one per enumerated blob, the value of
  the predicate of the specification on that blob; and processing a blob that fails the
  predicate makes no call and leaves the deleted and error counters as they are.
\<close>

theorem blob_deleted_iff_archive_and_expired:
  assumes "py_int (case environ w ''RETENTION_DAYS'' of None \<Rightarrow> ''90'' | Some v \<Rightarrow> v) = Inr retention_days"
    and "environ w ''STORAGE_ACCOUNT_NAME'' = Some account_name" and "account_name \<noteq> []"
    and "get_account_information w = Inr sku_name"
    and "list_containers w = Inr containers"
  shows "decisions (trace (snd (blob_main w)))
           = map (\<lambda>b. (blob_name b, should_delete retention_days b)) (enumerated containers)
         \<and> (\<forall>cname b st. \<not> should_delete retention_days b \<longrightarrow>
               calls_of (trace (process_blob retention_days cname b st)) = calls_of (trace st)
               \<and> deleted_count (process_blob retention_days cname b st) = deleted_count st
               \<and> error_count (process_blob retention_days cname b st) = error_count st)"
  using decisions_blob_main[OF assms] skipped_blob_untouched by blast

theorem scenario_archive_blob_deleted_hot_blob_skipped:
  "decisions (trace (snd (blob_main scenario_storage))) = [(''x.txt'', True), (''y.txt'', False)]
   \<and> calls_of (trace (process_blob 90 ''archive1'' y_txt blob_start)) = []
   \<and> deleted_count (process_blobs 90 ''archive1'' [x_txt, y_txt] (init_counters blob_start)) = 1"
proof -
  have acct: "environ scenario_storage ''STORAGE_ACCOUNT_NAME'' = Some ''acct''"
    by (simp add: scenario_storage_fields)
  have ne: "''acct'' \<noteq> []"
    by simp
  have x: "should_delete 90 x_txt"
    by (simp add: should_delete_code x_txt_def timedelta_days_def microseconds_per_day_def)
  have y: "\<not> should_delete 90 y_txt"
    by (simp add: should_delete_code y_txt_def)
  have start: "calls_of (trace blob_start) = []"
    by (simp add: blob_start_def calls_of_Nil)
  have one: "deleted_count (process_blobs 90 ''archive1'' [x_txt, y_txt] (init_counters blob_start)) = 1"
    by (simp add: process_blob_def Let_def x_txt_def y_txt_def timedelta_days_def microseconds_per_day_def
          init_counters_def blob_start_def counters_logging counters_call)
  from blob_deleted_iff_archive_and_expired
         [OF scenario_retention acct ne scenario_storage_fields(2) scenario_storage_fields(3)]
  show ?thesis
    using x y start one
    by (simp add: enumerated_def archive1_def) (simp add: x_txt_def y_txt_def)
qed

text \<open>
  C8, as amended. With \<open>retention_days = 0\<close>, an Archive blob is eligible for deletion
  exactly when its age is at least one whole day, that is when
  \<open>now_utc - last_modified\<close> is at least 24 hours. The age is counted in whole days and
  compared strictly, so a positive age below one day counts as zero days and the blob
  is skipped.
\<close>

theorem zero_retention_eligible_iff_one_day_old:
  assumes "blob_tier b = Some ''Archive''"
  shows "(decisions (trace (process_blob 0 cname b st)) = decisions (trace st) @ [(blob_name b, True)])
           = (microseconds_per_day \<le> now_utc b - last_modified b)"
proof -
  have "should_delete 0 b = (microseconds_per_day \<le> now_utc b - last_modified b)"
    using assms pos_imp_zdiv_pos_iff[of microseconds_per_day "now_utc b - last_modified b"]
    by (simp add: should_delete_code timedelta_days_def microseconds_per_day_def)
  then show ?thesis
    by (simp add: decisions_process_blob)
qed

theorem day_old_archive_blob_eligible:
  "decisions (trace (process_blob 0 ''archive1'' day_old_blob blob_start)) = [(''old.txt'', True)]"
proof -
  have t: "blob_tier day_old_blob = Some ''Archive''"
    by (simp add: day_old_blob_def)
  show ?thesis
    using zero_retention_eligible_iff_one_day_old[OF t, of "''archive1''" blob_start]
    by (simp add: day_old_blob_def microseconds_per_day_def blob_start_def decisions_simps)
qed

text \<open>
  The claim as it was stated, for every Archive blob whose \<open>now_utc\<close> is strictly after
  its \<open>last_modified\<close>, fails for a blob that is one hour old: with retention 0 it is
  skipped and no call is made.
\<close>

theorem hour_old_archive_blob_not_eligible:
  "blob_tier hour_old_blob = Some ''Archive''
   \<and> last_modified hour_old_blob < now_utc hour_old_blob
   \<and> decisions (trace (process_blob 0 ''archive1'' hour_old_blob blob_start)) = [(''recent.txt'', False)]
   \<and> calls_of (trace (process_blob 0 ''archive1'' hour_old_blob blob_start)) = []"
  by (simp add: hour_old_blob_def process_blob_def Let_def timedelta_days_def microseconds_per_day_def
        blob_start_def trace_logging trace_call decisions_simps decision_of_def calls_of_def)

section \<open>The blob cleanup function: failures that do not end the run\<close>

text \<open>
  C6. For every eligible blob whose \<^verbatim>\<open>delete_blob\<close> call raises ResourceNotFoundError, the
  function logs a warning, adds one to the error counter, leaves the deleted counter as
  it is, and goes on with the next blob: the loop continues with the remaining blobs
  from the state this blob leaves, and every one of them is processed. A run that
  enumerates such a blob returns without raising, and has decided on every enumerated
  blob.
\<close>

theorem not_found_on_delete_counted_not_fatal:
  assumes "blob_tier b = Some ''Archive''"
    and "timedelta_days (now_utc b) (last_modified b) > retention_days"
    and "delete_blob b = Some e"
    and "exn_class e = ResourceNotFoundError"
  shows "trace (process_blob retention_days cname b st)
           = trace st @
             [Log INFO [Lit ''Processing blob: '', Fmt (PyStr (blob_name b))],
              Log INFO [Lit ''Blob tier: '', Fmt (PyStr ''Archive'')],
              Log INFO [Lit ''Last modified: '', Fmt (PyDatetime (last_modified b))],
              Log INFO [Lit ''Blob age: '', Fmt (PyInt (timedelta_days (now_utc b) (last_modified b))),
                        Lit '' days''],
              Call (DeleteBlob cname (blob_name b)),
              Log WARNING [Lit ''Blob not found (already deleted?): '', Fmt (PyStr cname), Lit ''/'',
                           Fmt (PyStr (blob_name b))]]
         \<and> error_count (process_blob retention_days cname b st) = error_count st + 1
         \<and> deleted_count (process_blob retention_days cname b st) = deleted_count st
         \<and> processed_count (process_blob retention_days cname b st) = processed_count st + 1
         \<and> process_blobs retention_days cname (b # bs) st
             = process_blobs retention_days cname bs (process_blob retention_days cname b st)
         \<and> processed_count (process_blobs retention_days cname (b # bs) st)
             = processed_count st + 1 + int (length bs)
         \<and> (\<forall>w days account_name sku_name containers.
               py_int (case environ w ''RETENTION_DAYS'' of None \<Rightarrow> ''90'' | Some v \<Rightarrow> v) = Inr days
               \<and> environ w ''STORAGE_ACCOUNT_NAME'' = Some account_name \<and> account_name \<noteq> []
               \<and> get_account_information w = Inr sku_name
               \<and> list_containers w = Inr containers \<and> b \<in> set (enumerated containers)
               \<longrightarrow> fst (blob_main w) = None
                   \<and> map fst (decisions (trace (snd (blob_main w))))
                       = map blob_name (enumerated containers))"
proof -
  have step: "trace (process_blob retention_days cname b st)
           = trace st @
             [Log INFO [Lit ''Processing blob: '', Fmt (PyStr (blob_name b))],
              Log INFO [Lit ''Blob tier: '', Fmt (PyStr ''Archive'')],
              Log INFO [Lit ''Last modified: '', Fmt (PyDatetime (last_modified b))],
              Log INFO [Lit ''Blob age: '', Fmt (PyInt (timedelta_days (now_utc b) (last_modified b))),
                        Lit '' days''],
              Call (DeleteBlob cname (blob_name b)),
              Log WARNING [Lit ''Blob not found (already deleted?): '', Fmt (PyStr cname), Lit ''/'',
                           Fmt (PyStr (blob_name b))]]
         \<and> error_count (process_blob retention_days cname b st) = error_count st + 1
         \<and> deleted_count (process_blob retention_days cname b st) = deleted_count st
         \<and> processed_count (process_blob retention_days cname b st) = processed_count st + 1
         \<and> process_blobs retention_days cname (b # bs) st
             = process_blobs retention_days cname bs (process_blob retention_days cname b st)
         \<and> processed_count (process_blobs retention_days cname (b # bs) st)
             = processed_count st + 1 + int (length bs)"
    using assms
    by (simp add: process_blob_def Let_def counters_logging counters_call trace_logging trace_call
          processed_count_process_blobs)
  have "\<And>w days account_name sku_name containers.
          py_int (case environ w ''RETENTION_DAYS'' of None \<Rightarrow> ''90'' | Some v \<Rightarrow> v) = Inr days
          \<Longrightarrow> environ w ''STORAGE_ACCOUNT_NAME'' = Some account_name \<Longrightarrow> account_name \<noteq> []
          \<Longrightarrow> get_account_information w = Inr sku_name
          \<Longrightarrow> list_containers w = Inr containers
          \<Longrightarrow> fst (blob_main w) = None
              \<and> map fst (decisions (trace (snd (blob_main w)))) = map blob_name (enumerated containers)"
  proof -
    fix w :: storage and days account_name sku_name containers
    assume h: "py_int (case environ w ''RETENTION_DAYS'' of None \<Rightarrow> ''90'' | Some v \<Rightarrow> v) = Inr days"
      "environ w ''STORAGE_ACCOUNT_NAME'' = Some account_name" "account_name \<noteq> []"
      "get_account_information w = Inr sku_name" "list_containers w = Inr containers"
    have "fst (blob_main w) = None"
      using h by (rule blob_main_returns)
    moreover have "map fst (decisions (trace (snd (blob_main w)))) = map blob_name (enumerated containers)"
      using decisions_blob_main[OF h] by (simp add: comp_def)
    ultimately show "fst (blob_main w) = None
              \<and> map fst (decisions (trace (snd (blob_main w)))) = map blob_name (enumerated containers)"
      by simp
  qed
  then have job: "\<forall>w days account_name sku_name containers.
               py_int (case environ w ''RETENTION_DAYS'' of None \<Rightarrow> ''90'' | Some v \<Rightarrow> v) = Inr days
               \<and> environ w ''STORAGE_ACCOUNT_NAME'' = Some account_name \<and> account_name \<noteq> []
               \<and> get_account_information w = Inr sku_name
               \<and> list_containers w = Inr containers \<and> b \<in> set (enumerated containers)
               \<longrightarrow> fst (blob_main w) = None
                   \<and> map fst (decisions (trace (snd (blob_main w))))
                       = map blob_name (enumerated containers)"
    by blast
  from step job show ?thesis by simp
qed

theorem vanished_blob_counted_as_error:
  "error_count (process_blob 90 ''archive1'' vanished_blob blob_start) = 1
   \<and> deleted_count (process_blob 90 ''archive1'' vanished_blob blob_start) = 0
   \<and> processed_count (process_blobs 90 ''archive1'' [vanished_blob, x_txt, y_txt] blob_start) = 3
   \<and> last (trace (process_blob 90 ''archive1'' vanished_blob blob_start))
       = Log WARNING [Lit ''Blob not found (already deleted?): '', Fmt (PyStr ''archive1''), Lit ''/'',
                      Fmt (PyStr ''gone.txt'')]
   \<and> fst (blob_main vanishing_storage) = None
   \<and> map fst (decisions (trace (snd (blob_main vanishing_storage)))) = [''gone.txt'', ''x.txt'', ''y.txt'']"
proof -
  have tier: "blob_tier vanished_blob = Some ''Archive''"
    by (simp add: vanished_blob_def)
  have age: "timedelta_days (now_utc vanished_blob) (last_modified vanished_blob) > 90"
    by (simp add: vanished_blob_def timedelta_days_def microseconds_per_day_def)
  have del: "delete_blob vanished_blob = Some (Exn ResourceNotFoundError ''The specified blob does not exist.'')"
    by (simp add: vanished_blob_def)
  have cls: "exn_class (Exn ResourceNotFoundError ''The specified blob does not exist.'') = ResourceNotFoundError"
    by simp
  have start: "error_count blob_start = 0" "deleted_count blob_start = 0" "processed_count blob_start = 0"
    by (simp_all add: blob_start_def)
  have name: "blob_name vanished_blob = ''gone.txt''"
    by (simp add: vanished_blob_def)
  have acct: "environ vanishing_storage ''STORAGE_ACCOUNT_NAME'' = Some ''acct''"
    by (simp add: vanishing_storage_fields)
  have ne: "''acct'' \<noteq> []"
    by simp
  have enum: "enumerated [\<lparr>container_name = ''archive1'', list_blobs = Inr [vanished_blob, x_txt, y_txt]\<rparr>]
                = [vanished_blob, x_txt, y_txt]"
    by (simp add: enumerated_def)
  have mem: "vanished_blob
               \<in> set (enumerated [\<lparr>container_name = ''archive1'', list_blobs = Inr [vanished_blob, x_txt, y_txt]\<rparr>])"
    by (simp add: enum)
  have names: "map blob_name [vanished_blob, x_txt, y_txt] = [''gone.txt'', ''x.txt'', ''y.txt'']"
    by (simp add: vanished_blob_def x_txt_def y_txt_def)
  from not_found_on_delete_counted_not_fatal[OF tier age del cls, of "''archive1''" blob_start "[x_txt, y_txt]"]
  have "error_count (process_blob 90 ''archive1'' vanished_blob blob_start) = error_count blob_start + 1
        \<and> deleted_count (process_blob 90 ''archive1'' vanished_blob blob_start) = deleted_count blob_start
        \<and> processed_count (process_blobs 90 ''archive1'' (vanished_blob # [x_txt, y_txt]) blob_start)
            = processed_count blob_start + 1 + int (length [x_txt, y_txt])
        \<and> trace (process_blob 90 ''archive1'' vanished_blob blob_start)
            = trace blob_start @
              [Log INFO [Lit ''Processing blob: '', Fmt (PyStr (blob_name vanished_blob))],
               Log INFO [Lit ''Blob tier: '', Fmt (PyStr ''Archive'')],
               Log INFO [Lit ''Last modified: '', Fmt (PyDatetime (last_modified vanished_blob))],
               Log INFO [Lit ''Blob age: '',
                         Fmt (PyInt (timedelta_days (now_utc vanished_blob) (last_modified vanished_blob))),
                         Lit '' days''],
               Call (DeleteBlob ''archive1'' (blob_name vanished_blob)),
               Log WARNING [Lit ''Blob not found (already deleted?): '', Fmt (PyStr ''archive1''), Lit ''/'',
                            Fmt (PyStr (blob_name vanished_blob))]]
        \<and> (fst (blob_main vanishing_storage) = None
            \<and> map fst (decisions (trace (snd (blob_main vanishing_storage))))
                = map blob_name (enumerated [\<lparr>container_name = ''archive1'',
                                               list_blobs = Inr [vanished_blob, x_txt, y_txt]\<rparr>]))"
    using vanishing_retention acct ne vanishing_storage_fields(2) vanishing_storage_fields(3) mem
    by blast
  then show ?thesis
    using start name enum names by simp
qed

text \<open>
  C7. A failure while listing the blobs of a container is logged as an error, adds one
  to the error counter, and the loop goes on with the next container: the deleted and
  processed counters are unchanged, every later container is still listed, and a run
  whose configuration, account probe and container listing are in order returns
  without raising, whichever of its containers fail to list.
\<close>

theorem container_listing_failure_isolated:
  assumes "list_blobs c = Inl e"
  shows "trace (process_container retention_days c st)
           = trace st @ [Log INFO [Lit ''Processing container: '', Fmt (PyStr (container_name c))],
                         Call (ListBlobs (container_name c)),
                         Log ERROR [Lit ''Error processing container '', Fmt (PyStr (container_name c)),
                                    Lit '': '', Fmt (ExnStr e)]]
         \<and> error_count (process_container retention_days c st) = error_count st + 1
         \<and> deleted_count (process_container retention_days c st) = deleted_count st
         \<and> processed_count (process_container retention_days c st) = processed_count st
         \<and> process_containers retention_days (c # cs) st
             = process_containers retention_days cs (process_container retention_days c st)
         \<and> listed (trace (process_containers retention_days (c # cs) st))
             = listed (trace st) @ container_name c # map container_name cs
         \<and> (\<forall>w days account_name sku_name containers.
               py_int (case environ w ''RETENTION_DAYS'' of None \<Rightarrow> ''90'' | Some v \<Rightarrow> v) = Inr days
               \<and> environ w ''STORAGE_ACCOUNT_NAME'' = Some account_name \<and> account_name \<noteq> []
               \<and> get_account_information w = Inr sku_name
               \<and> list_containers w = Inr containers \<and> c \<in> set containers
               \<longrightarrow> fst (blob_main w) = None
                   \<and> listed (trace (snd (blob_main w))) = map container_name containers)"
proof -
  have "\<And>w days account_name sku_name containers.
          py_int (case environ w ''RETENTION_DAYS'' of None \<Rightarrow> ''90'' | Some v \<Rightarrow> v) = Inr days
          \<Longrightarrow> environ w ''STORAGE_ACCOUNT_NAME'' = Some account_name \<Longrightarrow> account_name \<noteq> []
          \<Longrightarrow> get_account_information w = Inr sku_name
          \<Longrightarrow> list_containers w = Inr containers
          \<Longrightarrow> fst (blob_main w) = None
                   \<and> listed (trace (snd (blob_main w))) = map container_name containers"
    using blob_main_returns listed_blob_main by blast
  then have job: "\<forall>w days account_name sku_name containers.
               py_int (case environ w ''RETENTION_DAYS'' of None \<Rightarrow> ''90'' | Some v \<Rightarrow> v) = Inr days
               \<and> environ w ''STORAGE_ACCOUNT_NAME'' = Some account_name \<and> account_name \<noteq> []
               \<and> get_account_information w = Inr sku_name
               \<and> list_containers w = Inr containers \<and> c \<in> set containers
               \<longrightarrow> fst (blob_main w) = None
                   \<and> listed (trace (snd (blob_main w))) = map container_name containers"
    by blast
  have step: "trace (process_container retention_days c st)
           = trace st @ [Log INFO [Lit ''Processing container: '', Fmt (PyStr (container_name c))],
                         Call (ListBlobs (container_name c)),
                         Log ERROR [Lit ''Error processing container '', Fmt (PyStr (container_name c)),
                                    Lit '': '', Fmt (ExnStr e)]]
         \<and> error_count (process_container retention_days c st) = error_count st + 1
         \<and> deleted_count (process_container retention_days c st) = deleted_count st
         \<and> processed_count (process_container retention_days c st) = processed_count st"
    using assms
    by (simp add: process_container_def Let_def trace_logging trace_call counters_logging counters_call)
  have rest: "listed (trace (process_containers retention_days (c # cs) st))
             = listed (trace st) @ container_name c # map container_name cs"
    by (simp add: listed_process_containers listed_process_container)
  show ?thesis
    using job step rest by simp
qed

theorem locked_container_does_not_stop_the_run:
  "fst (blob_main partly_locked_storage) = None
   \<and> listed (trace (snd (blob_main partly_locked_storage))) = [''locked'', ''archive1'']
   \<and> error_count (process_container 90 locked_container blob_start) = 1
   \<and> processed_count (process_container 90 locked_container blob_start) = 0"
proof -
  have failing: "list_blobs locked_container = Inl (Exn OtherException ''AuthorizationFailure'')"
    by (simp add: locked_container_def)
  have acct: "environ partly_locked_storage ''STORAGE_ACCOUNT_NAME'' = Some ''acct''"
    by (simp add: partly_locked_storage_fields)
  have ne: "''acct'' \<noteq> []"
    by simp
  have mem: "locked_container \<in> set [locked_container, archive1]"
    by simp
  have start: "error_count blob_start = 0" "processed_count blob_start = 0"
    by (simp_all add: blob_start_def)
  have names: "map container_name [locked_container, archive1] = [''locked'', ''archive1'']"
    by (simp add: locked_container_def archive1_def)
  from container_listing_failure_isolated[OF failing, of 90 blob_start "[]"]
  have "error_count (process_container 90 locked_container blob_start) = error_count blob_start + 1
        \<and> processed_count (process_container 90 locked_container blob_start) = processed_count blob_start
        \<and> (fst (blob_main partly_locked_storage) = None
            \<and> listed (trace (snd (blob_main partly_locked_storage)))
                = map container_name [locked_container, archive1])"
    using partly_locked_retention acct ne partly_locked_storage_fields(2) partly_locked_storage_fields(3) mem
    by blast
  then show ?thesis
    using start names by simp
qed

section \<open>The blob cleanup function: the counters\<close>

text \<open>
  C10. Throughout a run of the blob function the counters \<^verbatim>\<open>processed_count\<close>,
  \<^verbatim>\<open>deleted_count\<close> and \<^verbatim>\<open>error_count\<close> start at 0; the loop over the containers is a sequence
  of moves, each of which leaves a counter as it is or adds 1 to it; processing a blob
  adds 1 to \<^verbatim>\<open>processed_count\<close> and at most 1 to \<^verbatim>\<open>deleted_count\<close> and \<^verbatim>\<open>error_count\<close>
  together; and in every state the loop reaches \<^verbatim>\<open>deleted_count\<close> is at most
  \<^verbatim>\<open>processed_count\<close> and no counter is negative.
\<close>

theorem counters_start_at_zero_and_only_grow:
  "deleted_count (init_counters st0) = 0 \<and> processed_count (init_counters st0) = 0
   \<and> error_count (init_counters st0) = 0
   \<and> (loop_step retention_days)\<^sup>*\<^sup>* (init_counters st0)
        (process_containers retention_days containers (init_counters st0))
   \<and> (\<forall>st st'. loop_step retention_days st st' \<longrightarrow>
         processed_count st' - processed_count st \<in> {0, 1}
         \<and> deleted_count st' - deleted_count st \<in> {0, 1}
         \<and> error_count st' - error_count st \<in> {0, 1})
   \<and> (\<forall>cname b st.
         processed_count (process_blob retention_days cname b st) = processed_count st + 1
         \<and> (deleted_count (process_blob retention_days cname b st) - deleted_count st)
             + (error_count (process_blob retention_days cname b st) - error_count st) \<in> {0, 1})
   \<and> (\<forall>st. (loop_step retention_days)\<^sup>*\<^sup>* (init_counters st0) st \<longrightarrow>
         0 \<le> deleted_count st \<and> deleted_count st \<le> processed_count st
         \<and> 0 \<le> processed_count st \<and> 0 \<le> error_count st)"
proof -
  have z: "deleted_count (init_counters st0) = 0 \<and> processed_count (init_counters st0) = 0
           \<and> error_count (init_counters st0) = 0"
    by (simp add: init_counters_def)
  have inv: "\<forall>st. (loop_step retention_days)\<^sup>*\<^sup>* (init_counters st0) st \<longrightarrow>
         0 \<le> deleted_count st \<and> deleted_count st \<le> processed_count st
         \<and> 0 \<le> processed_count st \<and> 0 \<le> error_count st"
    using loop_steps_invariant[of retention_days "init_counters st0"] z by fastforce
  have st: "\<forall>st st'. loop_step retention_days st st' \<longrightarrow>
         processed_count st' - processed_count st \<in> {0, 1}
         \<and> deleted_count st' - deleted_count st \<in> {0, 1}
         \<and> error_count st' - error_count st \<in> {0, 1}"
    using loop_step_counters by blast
  have bl: "\<forall>cname b st.
         processed_count (process_blob retention_days cname b st) = processed_count st + 1
         \<and> (deleted_count (process_blob retention_days cname b st) - deleted_count st)
             + (error_count (process_blob retention_days cname b st) - error_count st) \<in> {0, 1}"
    using process_blob_counters by blast
  show ?thesis
    using z inv st bl loop_steps_process_containers[of retention_days "init_counters st0" containers]
    by blast
qed

theorem scenario_counters_ordered:
  "(loop_step 90)\<^sup>*\<^sup>* (init_counters blob_start)
      (process_containers 90 [locked_container, archive1] (init_counters blob_start))
   \<and> deleted_count (process_containers 90 [locked_container, archive1] (init_counters blob_start))
       \<le> processed_count (process_containers 90 [locked_container, archive1] (init_counters blob_start))
   \<and> 0 \<le> error_count (process_containers 90 [locked_container, archive1] (init_counters blob_start))"
  using counters_start_at_zero_and_only_grow[of blob_start 90 "[locked_container, archive1]"]
  by blast

section \<open>Both functions: a missing setting\<close>

text \<open>
  C5. A run of either function with a required environment variable missing (unset or
  empty: \<^verbatim>\<open>STORAGE_ACCOUNT_NAME\<close> for the blob function, \<^verbatim>\<open>SQL_SERVER\<close> or \<^verbatim>\<open>SQL_DATABASE\<close> for the
  database function) raises a ValueError, which the function reports as a configuration
  error, and the run makes no call at all: no token request, no connection attempt, no
  listing, no statement and no delete. In the blob function \<^verbatim>\<open>RETENTION_DAYS\<close> is parsed
  first, so the ValueError is the one of \<^verbatim>\<open>int()\<close> when that value is not a number.
\<close>

theorem missing_configuration_is_fatal_before_any_call:
  "((environ w ''STORAGE_ACCOUNT_NAME'' = None \<or> environ w ''STORAGE_ACCOUNT_NAME'' = Some [])
      \<longrightarrow> fst (blob_main w)
            = Some (case py_int (case environ w ''RETENTION_DAYS'' of None \<Rightarrow> ''90'' | Some v \<Rightarrow> v) of
                      Inl e \<Rightarrow> e
                    | Inr days \<Rightarrow> Exn ValueError ''STORAGE_ACCOUNT_NAME environment variable is not set'')
          \<and> (\<exists>e. fst (blob_main w) = Some e \<and> exn_class e = ValueError
                   \<and> last (trace (snd (blob_main w)))
                       = Log ERROR [Lit ''Configuration error: '', Fmt (ExnStr e)])
          \<and> calls_of (trace (snd (blob_main w))) = [])
   \<and> ((environ d ''SQL_SERVER'' = None \<or> environ d ''SQL_SERVER'' = Some []
        \<or> environ d ''SQL_DATABASE'' = None \<or> environ d ''SQL_DATABASE'' = Some [])
      \<longrightarrow> fst (db_main d)
            = Some (Exn ValueError ''Missing required environment variables: SQL_SERVER and/or SQL_DATABASE'')
          \<and> last (trace (snd (db_main d)))
              = Log ERROR [Lit ''Configuration error: '',
                           Fmt (ExnStr (Exn ValueError
                             ''Missing required environment variables: SQL_SERVER and/or SQL_DATABASE''))]
          \<and> calls_of (trace (snd (db_main d))) = []
          \<and> pending (snd (db_main d)) = [] \<and> committed (snd (db_main d)) = [])"
proof -
  have blob: "(environ w ''STORAGE_ACCOUNT_NAME'' = None \<or> environ w ''STORAGE_ACCOUNT_NAME'' = Some [])
      \<longrightarrow> fst (blob_main w)
            = Some (case py_int (case environ w ''RETENTION_DAYS'' of None \<Rightarrow> ''90'' | Some v \<Rightarrow> v) of
                      Inl e \<Rightarrow> e
                    | Inr days \<Rightarrow> Exn ValueError ''STORAGE_ACCOUNT_NAME environment variable is not set'')
          \<and> (\<exists>e. fst (blob_main w) = Some e \<and> exn_class e = ValueError
                   \<and> last (trace (snd (blob_main w)))
                       = Log ERROR [Lit ''Configuration error: '', Fmt (ExnStr e)])
          \<and> calls_of (trace (snd (blob_main w))) = []"
    by (auto simp add: blob_main_def blob_body_def Let_def blob_start_def logging_def calls_of_simps
          py_int_def invalid_literal_def split: sum.splits)
  have db: "(environ d ''SQL_SERVER'' = None \<or> environ d ''SQL_SERVER'' = Some []
        \<or> environ d ''SQL_DATABASE'' = None \<or> environ d ''SQL_DATABASE'' = Some [])
      \<longrightarrow> fst (db_main d)
            = Some (Exn ValueError ''Missing required environment variables: SQL_SERVER and/or SQL_DATABASE'')
          \<and> last (trace (snd (db_main d)))
              = Log ERROR [Lit ''Configuration error: '',
                           Fmt (ExnStr (Exn ValueError
                             ''Missing required environment variables: SQL_SERVER and/or SQL_DATABASE''))]
          \<and> calls_of (trace (snd (db_main d))) = []
          \<and> pending (snd (db_main d)) = [] \<and> committed (snd (db_main d)) = []"
    by (auto simp add: db_main_def db_body_def Let_def db_start_def logging_def calls_of_simps truthy_def)
  from blob db show ?thesis by (rule conjI)
qed

theorem empty_environment_is_fatal_before_any_call:
  "fst (blob_main unconfigured_storage)
     = Some (Exn ValueError ''STORAGE_ACCOUNT_NAME environment variable is not set'')
   \<and> calls_of (trace (snd (blob_main unconfigured_storage))) = []
   \<and> fst (db_main unconfigured_database)
       = Some (Exn ValueError ''Missing required environment variables: SQL_SERVER and/or SQL_DATABASE'')
   \<and> calls_of (trace (snd (db_main unconfigured_database))) = []"
proof -
  have s: "environ unconfigured_storage ''STORAGE_ACCOUNT_NAME'' = None"
    by (simp add: unconfigured_storage_def)
  have r: "py_int (case environ unconfigured_storage ''RETENTION_DAYS'' of None \<Rightarrow> ''90'' | Some v \<Rightarrow> v) = Inr 90"
    by (simp add: unconfigured_storage_def py_int_90)
  have d: "environ unconfigured_database ''SQL_SERVER'' = None"
    by (simp add: unconfigured_database_def)
  from missing_configuration_is_fatal_before_any_call[of unconfigured_storage unconfigured_database]
  show ?thesis
    using s r d by simp
qed

section \<open>The database cleanup function: authentication\<close>

text \<open>
  C2, as amended. The database function first requests an explicit access token from
  the identity provider, before any connection attempt; if that request fails the
  function raises without attempting a connection. It then attempts a connection with
  the platform-native identity named in the connection string. Only when that attempt
  fails with a driver error (\<^verbatim>\<open>pyodbc.Error\<close>) does it connect a second time, with the token
  it already holds passed as a connection attribute; any other failure of the first
  attempt is raised at once. If the second attempt fails as well, the function raises.
  Stated for a run with \<^verbatim>\<open>SQL_SERVER\<close> and \<^verbatim>\<open>SQL_DATABASE\<close> set: the authenticating calls of the
  whole run are exactly the ones listed, in this order.
\<close>

theorem token_first_then_identity_then_token_connection:
  assumes "environ w ''SQL_SERVER'' = Some server" and "server \<noteq> []"
    and "environ w ''SQL_DATABASE'' = Some db" and "db \<noteq> []"
  shows "(\<forall>e. get_token w token_scope = Inl e \<longrightarrow>
            auth_calls (trace (snd (db_main w))) = [GetToken token_scope]
            \<and> fst (db_main w) = Some e)
         \<and> (\<forall>token. get_token w token_scope = Inr token \<and> connect w (conn_str server db) None = None \<longrightarrow>
              auth_calls (trace (snd (db_main w)))
                = [GetToken token_scope, Connect (conn_str server db) None])
         \<and> (\<forall>token e1. get_token w token_scope = Inr token
                \<and> connect w (conn_str server db) None = Some e1 \<and> exn_class e1 \<noteq> PyodbcError \<longrightarrow>
              auth_calls (trace (snd (db_main w)))
                = [GetToken token_scope, Connect (conn_str server db) None]
              \<and> fst (db_main w) = Some e1)
         \<and> (\<forall>token e1. get_token w token_scope = Inr token
                \<and> connect w (conn_str server db) None = Some e1 \<and> exn_class e1 = PyodbcError \<longrightarrow>
              auth_calls (trace (snd (db_main w)))
                = [GetToken token_scope, Connect (conn_str server db) None,
                   Connect (conn_str_token server db) (Some token)]
              \<and> (\<forall>e2. connect w (conn_str_token server db) (Some token) = Some e2 \<longrightarrow>
                    fst (db_main w) = Some e2))"
  using db_main_auth[OF assms]
  by (simp add: expected_auth_calls_def auth_failure_def)

theorem both_logins_rejected_is_fatal:
  "auth_calls (trace (snd (db_main logins_rejected)))
     = [GetToken token_scope, Connect (conn_str ''srv'' ''db'') None,
        Connect (conn_str_token ''srv'' ''db'') (Some ''token'')]
   \<and> fst (db_main logins_rejected) = Some (Exn PyodbcError ''login failed'')"
proof -
  have server: "environ logins_rejected ''SQL_SERVER'' = Some ''srv''"
    and db: "environ logins_rejected ''SQL_DATABASE'' = Some ''db''"
    by (simp_all add: logins_rejected_fields)
  have ne: "''srv'' \<noteq> []" "''db'' \<noteq> []"
    by simp_all
  have tok: "get_token logins_rejected token_scope = Inr ''token''"
    by (simp add: logins_rejected_fields)
  have msi: "connect logins_rejected (conn_str ''srv'' ''db'') None = Some (Exn PyodbcError ''login failed'')"
    by (simp add: logins_rejected_fields)
  have second: "connect logins_rejected (conn_str_token ''srv'' ''db'') (Some ''token'')
                  = Some (Exn PyodbcError ''login failed'')"
    by (simp add: logins_rejected_fields)
  have cls: "exn_class (Exn PyodbcError ''login failed'') = PyodbcError"
    by simp
  from token_first_then_identity_then_token_connection[OF server ne(1) db ne(2)]
  show ?thesis
    using tok msi second cls by blast
qed

text \<open>
  The claim as it was stated, that a connection with the platform-native identity is
  attempted first and a token is acquired only after that attempt failed, fails where
  the identity provider is down although the database would accept the connection: the
  run requests the token, raises, and attempts no connection.
\<close>

theorem token_requested_before_any_connection:
  "connect token_provider_down (conn_str ''srv'' ''db'') None = None
   \<and> fst (db_main token_provider_down) = Some (Exn OtherException ''credential unavailable'')
   \<and> calls_of (trace (snd (db_main token_provider_down))) = [GetToken token_scope]"
  by (simp add: token_provider_down_def healthy_database_def db_main_def db_body_def open_connection_def
        truthy_def Let_def db_start_def logging_def call_def calls_of_simps)

section \<open>The database cleanup function: one table at a time\<close>

text \<open>
  C3, as amended. For every table of the fixed pair, if executing its delete statement
  raises and the call of \<^verbatim>\<open>conn.rollback()\<close> in the handler returns, then the transaction is
  rolled back, nothing of it is committed or left open, the error is logged and
  absorbed, and the loop goes on with the next statement. Whether or not the rollback
  returns, a delete statement that raised is never among the committed statements of
  the run, so no row is removed from its table.
\<close>

theorem failed_delete_rolled_back_and_isolated:
  assumes "query \<in> set cleanup_queries"
    and "table_name_of query = Inr tname"
    and "execute w (catalog_query tname) [] = Inr catalog_cursor"
    and "fetchone_0 catalog_cursor = Inr n" and "n \<noteq> SqlInt 0"
    and "py_int retention_days = Inr days"
    and "execute w (count_query query) [- days] = Inr count_cursor"
    and "fetchone_0 count_cursor = Inr to_delete_count"
    and "execute w query [- days] = Inl query_error"
    and "rollback w (trace st @ [Call (Execute (catalog_query tname) []),
                                 Call (Execute (count_query query) [- days]),
                                 Log INFO [Lit ''Found '', Fmt (PySql to_delete_count),
                                           Lit '' records to delete from '', Fmt (PyStr tname)],
                                 Call (Execute query [- days]),
                                 Log ERROR [Lit ''Error executing query on '', Fmt (PyStr tname), Lit '': '',
                                            Fmt (ExnStr query_error)]]) = None"
  shows "fst (process_query w retention_days query st) = None
         \<and> trace (snd (process_query w retention_days query st))
             = trace st @ [Call (Execute (catalog_query tname) []),
                           Call (Execute (count_query query) [- days]),
                           Log INFO [Lit ''Found '', Fmt (PySql to_delete_count),
                                     Lit '' records to delete from '', Fmt (PyStr tname)],
                           Call (Execute query [- days]),
                           Log ERROR [Lit ''Error executing query on '', Fmt (PyStr tname), Lit '': '',
                                      Fmt (ExnStr query_error)],
                           Call Rollback]
         \<and> committed (snd (process_query w retention_days query st)) = committed st
         \<and> pending (snd (process_query w retention_days query st)) = []
         \<and> total_deleted (snd (process_query w retention_days query st)) = total_deleted st
         \<and> process_queries w retention_days (query # queries) st
             = process_queries w retention_days queries (snd (process_query w retention_days query st))
         \<and> (query, [- days]) \<notin> set (committed (snd (db_main w)))"
proof -
  have never: "(query, [- days]) \<notin> set (committed (snd (db_main w)))"
    using assms(9) by (rule failed_statement_never_committed)
  show ?thesis
    using assms never
    by (simp add: process_query_def try_query_def delete_rows_def cursor_execute_def conn_rollback_def
          Let_def logging_def call_def)
qed

theorem failed_delete_on_Logs_absorbed:
  "fst (process_query logs_delete_fails ''90'' delete_from_Logs db_start) = None
   \<and> committed (snd (process_query logs_delete_fails ''90'' delete_from_Logs db_start)) = []
   \<and> pending (snd (process_query logs_delete_fails ''90'' delete_from_Logs db_start)) = []
   \<and> process_queries logs_delete_fails ''90'' cleanup_queries db_start
       = process_queries logs_delete_fails ''90'' [delete_from_AuditTrail]
           (snd (process_query logs_delete_fails ''90'' delete_from_Logs db_start))
   \<and> (delete_from_Logs, [- 90]) \<notin> set (committed (snd (db_main logs_delete_fails)))
   \<and> statements (trace (snd (process_queries logs_delete_fails ''90'' cleanup_queries db_start)))
       = [catalog_query ''Logs'', count_query delete_from_Logs, delete_from_Logs,
          catalog_query ''AuditTrail'', count_query delete_from_AuditTrail, delete_from_AuditTrail]"
proof -
  have run: "statements (trace (snd (process_queries logs_delete_fails ''90'' cleanup_queries db_start)))
       = [catalog_query ''Logs'', count_query delete_from_Logs, delete_from_Logs,
          catalog_query ''AuditTrail'', count_query delete_from_AuditTrail, delete_from_AuditTrail]"
    by (simp add: logs_delete_fails_fields cleanup_queries_def process_query_def try_query_def
          delete_rows_def cursor_execute_def fetchone_0_def py_index_def conn_rollback_def
          conn_commit_def healthy_cursor_def table_name_of_Logs table_name_of_AuditTrail py_int_90
          statement_facts more_statement_facts Let_def db_start_def logging_def call_def statements_simps)
  have q: "delete_from_Logs \<in> set cleanup_queries"
    by (simp add: cleanup_queries_def)
  have cat: "execute logs_delete_fails (catalog_query ''Logs'') [] = Inr healthy_cursor"
    by (simp add: logs_delete_fails_fields statement_facts)
  have f: "fetchone_0 healthy_cursor = Inr (SqlInt 1)"
    by (simp add: fetchone_0_def healthy_cursor_def py_index_def)
  have n: "SqlInt 1 \<noteq> SqlInt 0"
    by simp
  have cnt: "execute logs_delete_fails (count_query delete_from_Logs) [- 90] = Inr healthy_cursor"
    by (simp add: logs_delete_fails_fields statement_facts)
  have del: "execute logs_delete_fails delete_from_Logs [- 90] = Inl (Exn PyodbcError ''deadlock'')"
    by (simp add: logs_delete_fails_fields)
  have rb: "rollback logs_delete_fails
              (trace db_start @ [Call (Execute (catalog_query ''Logs'') []),
                                 Call (Execute (count_query delete_from_Logs) [- 90]),
                                 Log INFO [Lit ''Found '', Fmt (PySql (SqlInt 1)),
                                           Lit '' records to delete from '', Fmt (PyStr ''Logs'')],
                                 Call (Execute delete_from_Logs [- 90]),
                                 Log ERROR [Lit ''Error executing query on '', Fmt (PyStr ''Logs''), Lit '': '',
                                            Fmt (ExnStr (Exn PyodbcError ''deadlock''))]]) = None"
    by (simp add: logs_delete_fails_fields)
  have start: "committed db_start = []"
    by (simp add: db_start_def)
  from failed_delete_rolled_back_and_isolated
         [OF q table_name_of_Logs cat f n py_int_90 cnt f del rb, where queries = "[delete_from_AuditTrail]"]
  show ?thesis
    using start run by (simp add: cleanup_queries_def)
qed

text \<open>
  The claim as it was stated, without the condition on the rollback, fails when the
  connection is lost: the delete on \<^verbatim>\<open>Logs\<close> raises, the rollback in the handler raises as
  well, that exception ends the loop after four calls, none of them for \<^verbatim>\<open>AuditTrail\<close>, and
  the function raises it.
\<close>

theorem failed_rollback_is_fatal:
  "execute connection_lost delete_from_Logs [- 90] = Inl (Exn PyodbcError ''deadlock'')
   \<and> fst (process_queries connection_lost ''90'' cleanup_queries db_start)
       = Some (Exn PyodbcError ''communication link failure'')
   \<and> calls_of (trace (snd (process_queries connection_lost ''90'' cleanup_queries db_start)))
       = [Execute (catalog_query ''Logs'') [],
          Execute (count_query delete_from_Logs) [- 90],
          Execute delete_from_Logs [- 90],
          Rollback]
   \<and> fst (db_main connection_lost) = Some (Exn PyodbcError ''communication link failure'')"
  by (simp add: connection_lost_fields db_main_def db_body_def open_connection_def with_conn_def
        cursor_block_def cleanup_queries_def process_query_def try_query_def delete_rows_def
        cursor_execute_def fetchone_0_def py_index_def conn_rollback_def conn_commit_def
        healthy_cursor_def table_name_of_Logs table_name_of_AuditTrail py_int_90 statement_facts
        truthy_def Let_def db_start_def logging_def call_def calls_of_simps)

text \<open>
  C4. For every table of the fixed pair, if the catalog lookup reports that the table
  does not exist (the count it returns is 0), then the iteration for that table
  executes the lookup and nothing else, neither the count statement nor the delete
  statement, logs the absence as a warning and no error, raises nothing, rolls nothing
  back, and the loop goes on with the next statement. In the whole run neither the
  delete statement nor the count statement of that table is ever executed.
\<close>

theorem absent_table_skipped_without_delete:
  assumes "query \<in> set cleanup_queries"
    and "table_name_of query = Inr tname"
    and "execute w (catalog_query tname) [] = Inr catalog_cursor"
    and "fetchone catalog_cursor = Inr (Some (SqlInt 0 # more_columns))"
  shows "fst (process_query w retention_days query st) = None
         \<and> trace (snd (process_query w retention_days query st))
             = trace st @ [Call (Execute (catalog_query tname) []),
                           Log WARNING [Lit ''Table '', Fmt (PyStr tname),
                                        Lit '' does not exist, skipping...'']]
         \<and> catalog_query tname \<noteq> query \<and> catalog_query tname \<noteq> count_query query
         \<and> committed (snd (process_query w retention_days query st)) = committed st
         \<and> total_deleted (snd (process_query w retention_days query st)) = total_deleted st
         \<and> process_queries w retention_days (query # queries) st
             = process_queries w retention_days queries (snd (process_query w retention_days query st))
         \<and> query \<notin> set (statements (trace (snd (db_main w))))
         \<and> count_query query \<notin> set (statements (trace (snd (db_main w))))"
  using assms catalog_query_distinct[OF assms(1), of tname] absent_table_never_touched[OF assms]
  by (simp add: process_query_def try_query_def cursor_execute_def fetchone_0_def py_index_def Let_def
        logging_def call_def)

theorem absent_Logs_table_skipped:
  "fst (process_query logs_table_absent ''90'' delete_from_Logs db_start) = None
   \<and> calls_of (trace (snd (process_query logs_table_absent ''90'' delete_from_Logs db_start)))
       = [Execute (catalog_query ''Logs'') []]
   \<and> logs_of (trace (snd (process_query logs_table_absent ''90'' delete_from_Logs db_start)))
       = [(WARNING, [Lit ''Table '', Fmt (PyStr ''Logs''), Lit '' does not exist, skipping...''])]
   \<and> process_queries logs_table_absent ''90'' cleanup_queries db_start
       = process_queries logs_table_absent ''90'' [delete_from_AuditTrail]
           (snd (process_query logs_table_absent ''90'' delete_from_Logs db_start))
   \<and> delete_from_Logs \<notin> set (statements (trace (snd (db_main logs_table_absent))))"
proof -
  have q: "delete_from_Logs \<in> set cleanup_queries"
    by (simp add: cleanup_queries_def)
  have cat: "execute logs_table_absent (catalog_query ''Logs'') []
               = Inr \<lparr>fetchone = Inr (Some [SqlInt 0]), rowcount = 0\<rparr>"
    by (simp add: logs_table_absent_fields)
  have f: "fetchone \<lparr>fetchone = Inr (Some [SqlInt 0]), rowcount = 0\<rparr> = Inr (Some (SqlInt 0 # []))"
    by simp
  have start: "trace db_start = []"
    by (simp add: db_start_def)
  from absent_table_skipped_without_delete
         [OF q table_name_of_Logs cat f, of "''90''" db_start "[delete_from_AuditTrail]"]
  show ?thesis
    using start by (simp add: cleanup_queries_def calls_of_def logs_of_def)
qed

text \<open>
  C9. For each of the two fixed delete statements, the table name used for the catalog
  lookup is the text between the FROM keyword and the WHERE keyword of the statement,
  stripped of whitespace: each statement contains each keyword once, the text between
  them strips to \<^verbatim>\<open>Logs\<close> and to \<^verbatim>\<open>AuditTrail\<close>, that is what line 97 computes, and the
  first call of the iteration for a statement is the catalog lookup for that name.
\<close>

theorem table_names_parsed_between_FROM_and_WHERE:
  "map table_name_of cleanup_queries = [Inr ''Logs'', Inr ''AuditTrail'']
   \<and> cleanup_queries = [delete_from_Logs, delete_from_AuditTrail]
   \<and> delete_from_Logs
       = ''\<newline>                    DELETE '' @ ''FROM'' @ '' Logs \<newline>                    ''
         @ ''WHERE'' @ '' CreatedDate < DATEADD(day, ?, GETDATE())\<newline>                    ''
   \<and> py_strip '' Logs \<newline>                    '' = ''Logs''
   \<and> delete_from_AuditTrail
       = ''\<newline>                    DELETE '' @ ''FROM'' @ '' AuditTrail \<newline>                    ''
         @ ''WHERE'' @ '' Timestamp < DATEADD(day, ?, GETDATE())\<newline>                    ''
   \<and> py_strip '' AuditTrail \<newline>                    '' = ''AuditTrail''
   \<and> map (\<lambda>q. length (py_split q ''FROM'')) cleanup_queries = [2, 2]
   \<and> map (\<lambda>q. length (py_split q ''WHERE'')) cleanup_queries = [2, 2]
   \<and> (\<forall>w rd st. \<exists>evs. trace (snd (process_query w rd delete_from_Logs st))
                          = trace st @ Call (Execute (catalog_query ''Logs'') []) # evs)
   \<and> (\<forall>w rd st. \<exists>evs. trace (snd (process_query w rd delete_from_AuditTrail st))
                          = trace st @ Call (Execute (catalog_query ''AuditTrail'') []) # evs)"
proof -
  have names: "map table_name_of cleanup_queries = [Inr ''Logs'', Inr ''AuditTrail'']"
    by (simp add: cleanup_queries_def table_name_of_Logs table_name_of_AuditTrail)
  have texts: "delete_from_Logs
       = ''\<newline>                    DELETE '' @ ''FROM'' @ '' Logs \<newline>                    ''
         @ ''WHERE'' @ '' CreatedDate < DATEADD(day, ?, GETDATE())\<newline>                    ''"
    "delete_from_AuditTrail
       = ''\<newline>                    DELETE '' @ ''FROM'' @ '' AuditTrail \<newline>                    ''
         @ ''WHERE'' @ '' Timestamp < DATEADD(day, ?, GETDATE())\<newline>                    ''"
    by (simp_all add: delete_from_Logs_def delete_from_AuditTrail_def)
  have strips: "py_strip '' Logs \<newline>                    '' = ''Logs''"
    "py_strip '' AuditTrail \<newline>                    '' = ''AuditTrail''"
    by code_simp+
  have once: "map (\<lambda>q. length (py_split q ''FROM'')) cleanup_queries = [2, 2]"
    "map (\<lambda>q. length (py_split q ''WHERE'')) cleanup_queries = [2, 2]"
    by code_simp+
  have first: "\<forall>w rd st. \<exists>evs. trace (snd (process_query w rd delete_from_Logs st))
                          = trace st @ Call (Execute (catalog_query ''Logs'') []) # evs"
    "\<forall>w rd st. \<exists>evs. trace (snd (process_query w rd delete_from_AuditTrail st))
                          = trace st @ Call (Execute (catalog_query ''AuditTrail'') []) # evs"
    using trace_process_query[OF table_name_of_Logs] trace_process_query[OF table_name_of_AuditTrail]
    by blast+
  show ?thesis
    using names texts strips once first
    by (simp only: cleanup_queries_def simp_thms)
qed

theorem catalog_lookup_for_Logs_comes_first:
  "hd (calls_of (trace (snd (process_query healthy_database ''90'' delete_from_Logs db_start))))
     = Execute (catalog_query ''Logs'') []"
proof -
  from table_names_parsed_between_FROM_and_WHERE
  obtain evs where "trace (snd (process_query healthy_database ''90'' delete_from_Logs db_start))
                      = trace db_start @ Call (Execute (catalog_query ''Logs'') []) # evs"
    by blast
  then show ?thesis
    by (simp add: db_start_def calls_of_simps)
qed

end
